theory Spec2Isabelle
  imports Main "HOL-Library.AList" "HOL-Library.Char_ord" "HOL-Library.List_Lexorder"
begin

section \<open>VoiceRoomManager: the voice mesh coordinator of nightcord\<close>

text \<open>
  A shallow embedding of the class \<open>VoiceRoomManager\<close> of \<open>src/voice-room-manager.js\<close>.
  The fields of \<open>this\<close> are a record that every method takes and returns; what a method
  does to the outside (events on the event bus, messages on the web socket, calls on
  media streams and on \<open>WebRTCManager\<close> objects) is returned as a list of effects, in
  program order. The collaborators (\<open>EventBus\<close>, \<open>WebSocketManager\<close>, \<open>WebRTCManager\<close>,
  \<open>navigator.mediaDevices\<close>) are outside the class: what they answer is a parameter
  (\<open>env\<close>) of every method that asks them. Console output is not modelled.

  Each \<open>async\<close> method is given twice. Under the method's own name it is run alone, from
  call to settlement: the operation it awaits is answered by \<open>env\<close> and its continuation
  follows at once (\<open>handleVoiceState\<close>, which calls \<open>createPeerConnection\<close> without
  awaiting it, keeps the source's order: its own code first, the continuation after). And
  it is given in pieces, the code up to the first \<open>await\<close> (\<open>_start\<close>) and the code after
  each \<open>await\<close> (\<open>resume\<close>): the transition system below runs the pieces one at a
  time, so that other messages and calls come between an \<open>await\<close> and its continuation,
  as they do on the event loop.
\<close>

subsection \<open>Values\<close>

text \<open>A username or room name as JavaScript holds it: absent, \<open>null\<close> or a string.
  Equality of this type is \<open>===\<close>, and the key equality of a \<open>Map\<close>.\<close>

datatype jsval = Undefined | Null | Str string

text \<open>\<open>!v\<close> of the source.\<close>

fun falsy :: "jsval \<Rightarrow> bool" where
  "falsy Undefined = True"
| "falsy Null = True"
| "falsy (Str x) = (x = [])"

text \<open>Objects are known by their identity; session descriptions and ICE candidates are
  opaque to the coordinator.\<close>

type_synonym mgr = nat
type_synonym stream = nat
type_synonym payload = string

text \<open>A thrown \<open>Error\<close> or a rejected promise, with its message.\<close>

datatype error = Error string

text \<open>The object \<open>data\<close> of a message on the wire, inbound or outbound. A field that is
  absent is \<open>Undefined\<close> or \<open>None\<close>; \<open>m_inVoice\<close> is the truthiness of the field.\<close>

record message =
  m_type :: string
  m_username :: jsval
  m_roomname :: jsval
  m_inVoice :: bool
  m_muted :: "bool option"
  m_from :: jsval
  m_to :: jsval
  m_offer :: "payload option"
  m_answer :: "payload option"
  m_candidate :: "payload option"

definition emptyMessage :: message where
  "emptyMessage = \<lparr>m_type = [], m_username = Undefined, m_roomname = Undefined,
     m_inVoice = False, m_muted = None, m_from = Undefined, m_to = Undefined,
     m_offer = None, m_answer = None, m_candidate = None\<rparr>"

text \<open>The events of \<open>eventBus.emit\<close>, with their payloads.\<close>

datatype event =
    VoiceJoined jsval bool
  | VoiceLeft jsval bool
  | VoiceMuted jsval bool
  | VoiceError string error
  | VoiceStreamAdded jsval stream
  | VoiceStreamRemoved jsval
  | VoiceConnectionState jsval string

datatype effect =
    Emit event
  | WsSend message
  | RequestUserMedia
  | StopTracks stream
  | SetAudioEnabled stream bool
  | NewManager mgr
  | MgrAddLocalStream mgr stream
  | MgrCreateOffer mgr
  | MgrHandleOffer mgr "payload option"
  | MgrCreateAnswer mgr
  | MgrHandleAnswer mgr "payload option"
  | MgrAddIceCandidate mgr "payload option"
  | MgrClose mgr
  | PassToOriginal message

text \<open>The events among the effects, in order.\<close>

fun events_of :: "effect list \<Rightarrow> event list" where
  "events_of [] = []"
| "events_of (Emit ev # es) = ev # events_of es"
| "events_of (e # es) = events_of es"

text \<open>The managers constructed, the managers closed and the managers asked for an offer,
  in order.\<close>

fun managers_created :: "effect list \<Rightarrow> mgr list" where
  "managers_created [] = []"
| "managers_created (NewManager m # es) = m # managers_created es"
| "managers_created (e # es) = managers_created es"

fun managers_closed :: "effect list \<Rightarrow> mgr list" where
  "managers_closed [] = []"
| "managers_closed (MgrClose m # es) = m # managers_closed es"
| "managers_closed (e # es) = managers_closed es"

fun offers_requested :: "effect list \<Rightarrow> mgr list" where
  "offers_requested [] = []"
| "offers_requested (MgrCreateOffer m # es) = m # offers_requested es"
| "offers_requested (e # es) = offers_requested es"

text \<open>The fields of \<open>this\<close>. The two \<open>Map\<close>s are association lists in insertion order
  (\<open>Map.prototype.set\<close> is \<open>AList.update\<close>, \<open>delete\<close> is \<open>AList.delete\<close>, \<open>get\<close> is
  \<open>map_of\<close>). \<open>nextMgr\<close> is not a field of the source: it is the identity that the next
  \<open>new WebRTCManager\<close> receives.\<close>

record vrm_state =
  inVoice :: bool
  localStream :: "stream option"
  isMuted :: bool
  username :: jsval
  roomname :: jsval
  peers :: "(jsval \<times> mgr) list"
  remoteStreams :: "(jsval \<times> stream) list"
  nextMgr :: mgr

text \<open>What the collaborators answer during one call of a method: whether the socket is
  connected, and whether each awaited operation resolves (\<open>Inr\<close>) or rejects (\<open>Inl\<close>).\<close>

record env =
  isConnected :: bool
  getUserMedia :: "error + stream"
  mgr_createOffer :: "error + payload"
  mgr_handleOffer :: "error + unit"
  mgr_createAnswer :: "error + payload"
  mgr_handleAnswer :: "error + unit"
  mgr_addIceCandidate :: "error + unit"

subsection \<open>The methods\<close>

definition has :: "('k \<times> 'v) list \<Rightarrow> 'k \<Rightarrow> bool" where
  "has m k = (case map_of m k of None \<Rightarrow> False | Some v \<Rightarrow> True)"

text \<open>The state after \<open>constructor\<close> (the handler it installs is \<open>onMessage\<close> below).\<close>

definition constructor :: vrm_state where
  "constructor = \<lparr>inVoice = False, localStream = None, isMuted = False, username = Null,
     roomname = Null, peers = [], remoteStreams = [], nextMgr = 0\<rparr>"

definition voiceStateMessage :: "vrm_state \<Rightarrow> message" where
  "voiceStateMessage s = emptyMessage\<lparr>m_type := ''voice-state'', m_username := username s,
     m_roomname := roomname s, m_inVoice := inVoice s, m_muted := Some (isMuted s)\<rparr>"

definition broadcastVoiceState :: "env \<Rightarrow> vrm_state \<Rightarrow> effect list" where
  "broadcastVoiceState env s =
     (if \<not> isConnected env then [] else [WsSend (voiceStateMessage s)])"

definition sendSignaling :: "env \<Rightarrow> message \<Rightarrow> vrm_state \<Rightarrow> effect list" where
  "sendSignaling env data s =
     (if \<not> isConnected env then []
      else [WsSend (data\<lparr>m_from := username s, m_roomname := roomname s\<rparr>)])"

definition removePeer :: "jsval \<Rightarrow> vrm_state \<Rightarrow> vrm_state \<times> effect list" where
  "removePeer u s =
     (let (s1, e1) =
        (case map_of (peers s) u of
           Some manager \<Rightarrow> (s\<lparr>peers := AList.delete u (peers s)\<rparr>, [MgrClose manager])
         | None \<Rightarrow> (s, []));
          (s2, e2) =
        (case map_of (remoteStreams s1) u of
           Some st \<Rightarrow> (s1\<lparr>remoteStreams := AList.delete u (remoteStreams s1)\<rparr>,
                        [Emit (VoiceStreamRemoved u)])
         | None \<Rightarrow> (s1, []))
      in (s2, e1 @ e2))"

text \<open>\<open>new WebRTCManager({...})\<close>, \<open>this.peers.set\<close> and \<open>addLocalStream\<close>, as both
  \<open>createPeerConnection\<close> and \<open>handleOffer\<close> do them; the new manager is returned.\<close>

definition newPeer :: "jsval \<Rightarrow> vrm_state \<Rightarrow> mgr \<times> vrm_state \<times> effect list" where
  "newPeer remoteUsername s =
     (let manager = nextMgr s;
          s1 = s\<lparr>peers := AList.update remoteUsername manager (peers s),
                 nextMgr := Suc (nextMgr s)\<rparr>
      in (manager, s1,
          NewManager manager #
            (case localStream s1 of Some st \<Rightarrow> [MgrAddLocalStream manager st] | None \<Rightarrow> [])))"

text \<open>\<open>createPeerConnection\<close> up to \<open>await manager.createOffer()\<close>: \<open>None\<close> when it
  returned at the guard, the manager whose offer is awaited otherwise.\<close>

definition createPeerConnection_start ::
  "jsval \<Rightarrow> vrm_state \<Rightarrow> mgr option \<times> vrm_state \<times> effect list" where
  "createPeerConnection_start remoteUsername s =
     (if has (peers s) remoteUsername then (None, s, [])
      else let (manager, s1, e1) = newPeer remoteUsername s
           in (Some manager, s1, e1 @ [MgrCreateOffer manager]))"

text \<open>The continuation of \<open>createPeerConnection\<close> once \<open>createOffer\<close> has settled.\<close>

definition createPeerConnection_resume ::
  "env \<Rightarrow> jsval \<Rightarrow> vrm_state \<Rightarrow> vrm_state \<times> effect list" where
  "createPeerConnection_resume env remoteUsername s =
     (case mgr_createOffer env of
        Inr offer \<Rightarrow>
          (s, sendSignaling env
                (emptyMessage\<lparr>m_type := ''webrtc-offer'', m_to := remoteUsername,
                   m_offer := Some offer\<rparr>) s)
      | Inl err \<Rightarrow> removePeer remoteUsername s)"

definition createPeerConnection ::
  "env \<Rightarrow> jsval \<Rightarrow> vrm_state \<Rightarrow> (error + unit) \<times> vrm_state \<times> effect list" where
  "createPeerConnection env remoteUsername s =
     (case createPeerConnection_start remoteUsername s of
        (None, s1, e1) \<Rightarrow> (Inr (), s1, e1)
      | (Some manager, s1, e1) \<Rightarrow>
          (let (s2, e2) = createPeerConnection_resume env remoteUsername s1
           in (Inr (), s2, e1 @ e2)))"

definition joinVoiceChat ::
  "env \<Rightarrow> jsval \<Rightarrow> jsval \<Rightarrow> vrm_state \<Rightarrow> (error + unit) \<times> vrm_state \<times> effect list" where
  "joinVoiceChat env uname rname s =
     (if inVoice s then (Inr (), s, [])
      else if falsy uname \<or> falsy rname
        then (Inl (Error ''Username and roomname required''), s, [])
      else
        (let s1 = s\<lparr>username := uname, roomname := rname\<rparr>
         in case getUserMedia env of
              Inr st \<Rightarrow>
                (let s2 = s1\<lparr>localStream := Some st, inVoice := True\<rparr>
                 in (Inr (), s2,
                     RequestUserMedia # broadcastVoiceState env s2 @
                       [Emit (VoiceJoined (username s2) True)]))
            | Inl err \<Rightarrow>
                (Inl err, s1,
                 [RequestUserMedia, Emit (VoiceError ''Microphone access denied'' err)])))"

definition leaveVoiceChat :: "env \<Rightarrow> vrm_state \<Rightarrow> vrm_state \<times> effect list" where
  "leaveVoiceChat env s =
     (if \<not> inVoice s then (s, [])
      else
        (let e1 = (case localStream s of Some st \<Rightarrow> [StopTracks st] | None \<Rightarrow> []);
             e2 = map (\<lambda>p. MgrClose (snd p)) (peers s);
             s1 = s\<lparr>localStream := None, peers := [], remoteStreams := [],
                    inVoice := False\<rparr>
         in (s1, e1 @ e2 @ broadcastVoiceState env s1 @
                   [Emit (VoiceLeft (username s1) True)])))"

text \<open>The guard of \<open>toggleMute\<close> is \<open>!this.inVoice || !this.localStream\<close>: both of its
  branches return the mute flag with nothing done.\<close>

definition toggleMute :: "env \<Rightarrow> vrm_state \<Rightarrow> bool \<times> vrm_state \<times> effect list" where
  "toggleMute env s =
     (case localStream s of
        None \<Rightarrow> (isMuted s, s, [])
      | Some st \<Rightarrow>
          if \<not> inVoice s then (isMuted s, s, [])
          else
            (let s1 = s\<lparr>isMuted := \<not> isMuted s\<rparr>
             in (isMuted s1, s1,
                 SetAudioEnabled st (\<not> isMuted s1) # broadcastVoiceState env s1 @
                   [Emit (VoiceMuted (username s1) (isMuted s1))])))"

definition handleVoiceState :: "env \<Rightarrow> message \<Rightarrow> vrm_state \<Rightarrow> vrm_state \<times> effect list" where
  "handleVoiceState env data s =
     (if m_username data = username s then (s, [])
      else
        (let (k, s1, e1) =
           (if m_inVoice data then
              (if inVoice s then
                 (let (k, s', e') = createPeerConnection_start (m_username data) s
                  in (k, s', Emit (VoiceJoined (m_username data) False) # e'))
               else (None, s, [Emit (VoiceJoined (m_username data) False)]))
            else
              (let (s', e') = removePeer (m_username data) s
               in (None, s', e' @ [Emit (VoiceLeft (m_username data) False)])));
             e2 = (case m_muted data of
                     Some muted \<Rightarrow> [Emit (VoiceMuted (m_username data) muted)]
                   | None \<Rightarrow> []);
             (s3, e3) = (case k of
                     Some manager \<Rightarrow> createPeerConnection_resume env (m_username data) s1
                   | None \<Rightarrow> (s1, []))
         in (s3, e1 @ e2 @ e3)))"

text \<open>In \<open>handleOffer\<close> the manager that \<open>this.peers.get(from)\<close> yields after the guarded
  creation is the registered one if there was one, the new one otherwise.\<close>

definition handleOffer ::
  "env \<Rightarrow> jsval \<Rightarrow> payload option \<Rightarrow> vrm_state \<Rightarrow> (error + unit) \<times> vrm_state \<times> effect list" where
  "handleOffer env frm offer s =
     (let (manager, s1, e1) =
        (case map_of (peers s) frm of
           None \<Rightarrow> newPeer frm s
         | Some m \<Rightarrow> (m, s, []))
      in case mgr_handleOffer env of
           Inl err \<Rightarrow>
             (let (s2, e2) = removePeer frm s1
              in (Inr (), s2, e1 @ MgrHandleOffer manager offer # e2))
         | Inr ok \<Rightarrow>
             (case mgr_createAnswer env of
                Inl err \<Rightarrow>
                  (let (s2, e2) = removePeer frm s1
                   in (Inr (), s2,
                       e1 @ MgrHandleOffer manager offer # MgrCreateAnswer manager # e2))
              | Inr answer \<Rightarrow>
                  (Inr (), s1,
                   e1 @ MgrHandleOffer manager offer # MgrCreateAnswer manager #
                     sendSignaling env
                       (emptyMessage\<lparr>m_type := ''webrtc-answer'', m_to := frm,
                          m_answer := Some answer\<rparr>) s1)))"

definition handleAnswer ::
  "env \<Rightarrow> jsval \<Rightarrow> payload option \<Rightarrow> vrm_state \<Rightarrow> (error + unit) \<times> vrm_state \<times> effect list" where
  "handleAnswer env frm answer s =
     (case map_of (peers s) frm of
        None \<Rightarrow> (Inr (), s, [])
      | Some manager \<Rightarrow>
          (case mgr_handleAnswer env of
             Inr ok \<Rightarrow> (Inr (), s, [MgrHandleAnswer manager answer])
           | Inl err \<Rightarrow>
               (let (s2, e2) = removePeer frm s
                in (Inr (), s2, MgrHandleAnswer manager answer # e2))))"

definition handleIceCandidate ::
  "env \<Rightarrow> jsval \<Rightarrow> payload option \<Rightarrow> vrm_state \<Rightarrow> (error + unit) \<times> vrm_state \<times> effect list" where
  "handleIceCandidate env frm candidate s =
     (case map_of (peers s) frm of
        None \<Rightarrow> (Inr (), s, [])
      | Some manager \<Rightarrow>
          (case mgr_addIceCandidate env of
             Inr ok \<Rightarrow> (Inr (), s, [MgrAddIceCandidate manager candidate])
           | Inl err \<Rightarrow> (Inr (), s, [MgrAddIceCandidate manager candidate])))"

definition handleSignaling ::
  "env \<Rightarrow> message \<Rightarrow> vrm_state \<Rightarrow> (error + unit) \<times> vrm_state \<times> effect list" where
  "handleSignaling env data s =
     (if m_from data = username s then (Inr (), s, [])
      else if m_type data = ''webrtc-offer''
        then handleOffer env (m_from data) (m_offer data) s
      else if m_type data = ''webrtc-answer''
        then handleAnswer env (m_from data) (m_answer data) s
      else if m_type data = ''webrtc-ice-candidate''
        then handleIceCandidate env (m_from data) (m_candidate data) s
      else (Inr (), s, []))"

text \<open>The three callbacks that both \<open>createPeerConnection\<close> and \<open>handleOffer\<close> give to a
  new manager, for the remote username they close over.\<close>

definition onIceCandidate :: "env \<Rightarrow> jsval \<Rightarrow> payload \<Rightarrow> vrm_state \<Rightarrow> effect list" where
  "onIceCandidate env remoteUsername candidate s =
     sendSignaling env
       (emptyMessage\<lparr>m_type := ''webrtc-ice-candidate'', m_to := remoteUsername,
          m_candidate := Some candidate\<rparr>) s"

definition onRemoteStream :: "jsval \<Rightarrow> stream \<Rightarrow> vrm_state \<Rightarrow> vrm_state \<times> effect list" where
  "onRemoteStream remoteUsername st s =
     (s\<lparr>remoteStreams := AList.update remoteUsername st (remoteStreams s)\<rparr>,
      [Emit (VoiceStreamAdded remoteUsername st)])"

definition onConnectionStateChange ::
  "jsval \<Rightarrow> string \<Rightarrow> vrm_state \<Rightarrow> vrm_state \<times> effect list" where
  "onConnectionStateChange remoteUsername st s =
     (if st = ''failed'' \<or> st = ''closed''
      then (let (s1, e1) = removePeer remoteUsername s
            in (s1, Emit (VoiceConnectionState remoteUsername st) # e1))
      else (s, [Emit (VoiceConnectionState remoteUsername st)]))"

definition getParticipants :: "vrm_state \<Rightarrow> jsval list" where
  "getParticipants s =
     (if inVoice s then username s # map fst (peers s) else map fst (peers s))"

definition getRemoteStream :: "vrm_state \<Rightarrow> jsval \<Rightarrow> stream option" where
  "getRemoteStream s u = map_of (remoteStreams s) u"

definition destroy :: "env \<Rightarrow> vrm_state \<Rightarrow> vrm_state \<times> effect list" where
  "destroy env s = leaveVoiceChat env s"

subsection \<open>The methods in pieces\<close>

text \<open>An \<open>async\<close> method that has reached an \<open>await\<close>: which one, with the remote username
  and the manager that its continuation closes over.\<close>

datatype pending =
    AwaitGetUserMedia
  | AwaitCreateOffer jsval mgr
  | AwaitHandleOffer jsval mgr
  | AwaitCreateAnswer jsval mgr
  | AwaitHandleAnswer jsval mgr
  | AwaitAddIceCandidate jsval mgr

text \<open>Where a piece of an \<open>async\<close> method ends: the promise is settled (resolved with
  \<open>Inr\<close>, rejected with \<open>Inl\<close>), or the method waits at an \<open>await\<close>.\<close>

datatype progress = Settled "error + unit" | Awaiting pending

text \<open>\<open>joinVoiceChat\<close> up to \<open>await navigator.mediaDevices.getUserMedia(...)\<close>.\<close>

definition joinVoiceChat_start ::
  "jsval \<Rightarrow> jsval \<Rightarrow> vrm_state \<Rightarrow> progress \<times> vrm_state \<times> effect list" where
  "joinVoiceChat_start uname rname s =
     (if inVoice s then (Settled (Inr ()), s, [])
      else if falsy uname \<or> falsy rname
        then (Settled (Inl (Error ''Username and roomname required'')), s, [])
      else (Awaiting AwaitGetUserMedia, s\<lparr>username := uname, roomname := rname\<rparr>,
            [RequestUserMedia]))"

text \<open>\<open>handleOffer\<close> up to \<open>await manager.handleOffer(offer)\<close>.\<close>

definition handleOffer_start ::
  "jsval \<Rightarrow> payload option \<Rightarrow> vrm_state \<Rightarrow> progress \<times> vrm_state \<times> effect list" where
  "handleOffer_start frm offer s =
     (let (manager, s1, e1) =
        (case map_of (peers s) frm of
           None \<Rightarrow> newPeer frm s
         | Some m \<Rightarrow> (m, s, []))
      in (Awaiting (AwaitHandleOffer frm manager), s1, e1 @ [MgrHandleOffer manager offer]))"

text \<open>\<open>handleAnswer\<close> up to \<open>await manager.handleAnswer(answer)\<close>.\<close>

definition handleAnswer_start ::
  "jsval \<Rightarrow> payload option \<Rightarrow> vrm_state \<Rightarrow> progress \<times> vrm_state \<times> effect list" where
  "handleAnswer_start frm answer s =
     (case map_of (peers s) frm of
        None \<Rightarrow> (Settled (Inr ()), s, [])
      | Some manager \<Rightarrow>
          (Awaiting (AwaitHandleAnswer frm manager), s, [MgrHandleAnswer manager answer]))"

text \<open>\<open>handleIceCandidate\<close> up to \<open>await manager.addIceCandidate(candidate)\<close>.\<close>

definition handleIceCandidate_start ::
  "jsval \<Rightarrow> payload option \<Rightarrow> vrm_state \<Rightarrow> progress \<times> vrm_state \<times> effect list" where
  "handleIceCandidate_start frm candidate s =
     (case map_of (peers s) frm of
        None \<Rightarrow> (Settled (Inr ()), s, [])
      | Some manager \<Rightarrow>
          (Awaiting (AwaitAddIceCandidate frm manager), s,
           [MgrAddIceCandidate manager candidate]))"

text \<open>\<open>handleSignaling\<close> up to the first \<open>await\<close> of the handler it calls; nothing of its
  own follows when that handler has settled.\<close>

definition handleSignaling_start ::
  "message \<Rightarrow> vrm_state \<Rightarrow> progress \<times> vrm_state \<times> effect list" where
  "handleSignaling_start data s =
     (if m_from data = username s then (Settled (Inr ()), s, [])
      else if m_type data = ''webrtc-offer''
        then handleOffer_start (m_from data) (m_offer data) s
      else if m_type data = ''webrtc-answer''
        then handleAnswer_start (m_from data) (m_answer data) s
      else if m_type data = ''webrtc-ice-candidate''
        then handleIceCandidate_start (m_from data) (m_candidate data) s
      else (Settled (Inr ()), s, []))"

text \<open>\<open>handleVoiceState\<close> itself, which returns while the \<open>createPeerConnection\<close> it may
  have called waits for its offer.\<close>

definition handleVoiceState_start ::
  "message \<Rightarrow> vrm_state \<Rightarrow> progress \<times> vrm_state \<times> effect list" where
  "handleVoiceState_start data s =
     (if m_username data = username s then (Settled (Inr ()), s, [])
      else
        (let (k, s1, e1) =
           (if m_inVoice data then
              (if inVoice s then
                 (let (k, s', e') = createPeerConnection_start (m_username data) s
                  in (k, s', Emit (VoiceJoined (m_username data) False) # e'))
               else (None, s, [Emit (VoiceJoined (m_username data) False)]))
            else
              (let (s', e') = removePeer (m_username data) s
               in (None, s', e' @ [Emit (VoiceLeft (m_username data) False)])));
             e2 = (case m_muted data of
                     Some muted \<Rightarrow> [Emit (VoiceMuted (m_username data) muted)]
                   | None \<Rightarrow> [])
         in ((case k of
                Some manager \<Rightarrow> Awaiting (AwaitCreateOffer (m_username data) manager)
              | None \<Rightarrow> Settled (Inr ())),
             s1, e1 @ e2)))"

text \<open>The continuation behind each \<open>await\<close>, run when the awaited operation has settled
  the way \<open>env\<close> says. It acts on the state of that moment, and looks the remote username
  up again where the source does (\<open>removePeer\<close>); the manager is the one it closed over.\<close>

fun resume :: "env \<Rightarrow> pending \<Rightarrow> vrm_state \<Rightarrow> progress \<times> vrm_state \<times> effect list" where
  "resume env AwaitGetUserMedia s =
     (case getUserMedia env of
        Inr st \<Rightarrow>
          (let s2 = s\<lparr>localStream := Some st, inVoice := True\<rparr>
           in (Settled (Inr ()), s2,
               broadcastVoiceState env s2 @ [Emit (VoiceJoined (username s2) True)]))
      | Inl err \<Rightarrow>
          (Settled (Inl err), s, [Emit (VoiceError ''Microphone access denied'' err)]))"
| "resume env (AwaitCreateOffer remoteUsername manager) s =
     (let (s1, e1) = createPeerConnection_resume env remoteUsername s
      in (Settled (Inr ()), s1, e1))"
| "resume env (AwaitHandleOffer frm manager) s =
     (case mgr_handleOffer env of
        Inl err \<Rightarrow> (let (s1, e1) = removePeer frm s in (Settled (Inr ()), s1, e1))
      | Inr ok \<Rightarrow> (Awaiting (AwaitCreateAnswer frm manager), s, [MgrCreateAnswer manager]))"
| "resume env (AwaitCreateAnswer frm manager) s =
     (case mgr_createAnswer env of
        Inl err \<Rightarrow> (let (s1, e1) = removePeer frm s in (Settled (Inr ()), s1, e1))
      | Inr answer \<Rightarrow>
          (Settled (Inr ()), s,
           sendSignaling env
             (emptyMessage\<lparr>m_type := ''webrtc-answer'', m_to := frm,
                m_answer := Some answer\<rparr>) s))"
| "resume env (AwaitHandleAnswer frm manager) s =
     (case mgr_handleAnswer env of
        Inl err \<Rightarrow> (let (s1, e1) = removePeer frm s in (Settled (Inr ()), s1, e1))
      | Inr ok \<Rightarrow> (Settled (Inr ()), s, []))"
| "resume env (AwaitAddIceCandidate frm manager) s = (Settled (Inr ()), s, [])"

text \<open>The awaited operation settles at once: the piece that ended at an \<open>await\<close> is
  followed by its continuation, with nothing in between.\<close>

definition settle_now ::
  "env \<Rightarrow> progress \<times> vrm_state \<times> effect list \<Rightarrow> progress \<times> vrm_state \<times> effect list" where
  "settle_now env r =
     (case r of
        (Settled x, s, es) \<Rightarrow> (Settled x, s, es)
      | (Awaiting k, s, es) \<Rightarrow> (case resume env k s of (p, s', es') \<Rightarrow> (p, s', es @ es')))"

text \<open>The handler that \<open>setupSignalingHandlers\<close> installs on the socket. It awaits
  nothing: it returns as soon as the handler it called returns or waits.\<close>

definition onMessage :: "message \<Rightarrow> vrm_state \<Rightarrow> progress \<times> vrm_state \<times> effect list" where
  "onMessage data s =
     (if take 7 (m_type data) = ''webrtc-'' then handleSignaling_start data s
      else if m_type data = ''voice-state'' then handleVoiceState_start data s
      else (Settled (Inr ()), s, [PassToOriginal data]))"

subsection \<open>The coordinator as a transition system\<close>

text \<open>A configuration: the fields of the coordinator, the \<open>async\<close> methods that wait at an
  \<open>await\<close>, and everything the coordinator has done to the outside so far.\<close>

record config =
  cfg_state :: vrm_state
  cfg_pending :: "pending list"
  cfg_trace :: "effect list"

definition initial :: config where
  "initial = \<lparr>cfg_state = constructor, cfg_pending = [], cfg_trace = []\<rparr>"

text \<open>Everything that can happen to a coordinator: a call of a public method, a message
  on the socket, a callback from one of its managers, or the settling of an operation that
  one of its methods awaits (the \<open>i\<close>-th of those that wait).\<close>

datatype action =
    JoinVoiceChat jsval jsval
  | LeaveVoiceChat
  | ToggleMute
  | OnMessage message
  | OnIceCandidate jsval payload
  | OnRemoteStream jsval stream
  | OnConnectionStateChange jsval string
  | Destroy
  | Settle nat

text \<open>One piece of code has run: the new state, the methods that were waiting and still
  are, the method that now waits (if the piece ended at an \<open>await\<close>), the effects.\<close>

definition advance ::
  "config \<Rightarrow> pending list \<Rightarrow> progress \<times> vrm_state \<times> effect list \<Rightarrow> config" where
  "advance c waiting r =
     (case r of
        (p, s, es) \<Rightarrow>
          \<lparr>cfg_state = s,
           cfg_pending = (case p of Awaiting k \<Rightarrow> waiting @ [k] | Settled x \<Rightarrow> waiting),
           cfg_trace = cfg_trace c @ es\<rparr>)"

fun step :: "env \<Rightarrow> action \<Rightarrow> config \<Rightarrow> config" where
  "step env (JoinVoiceChat u r) c =
     advance c (cfg_pending c) (joinVoiceChat_start u r (cfg_state c))"
| "step env LeaveVoiceChat c =
     advance c (cfg_pending c)
       (case leaveVoiceChat env (cfg_state c) of (s, es) \<Rightarrow> (Settled (Inr ()), s, es))"
| "step env ToggleMute c =
     advance c (cfg_pending c)
       (case toggleMute env (cfg_state c) of (b, s, es) \<Rightarrow> (Settled (Inr ()), s, es))"
| "step env (OnMessage data) c =
     advance c (cfg_pending c) (onMessage data (cfg_state c))"
| "step env (OnIceCandidate u cand) c =
     advance c (cfg_pending c)
       (Settled (Inr ()), cfg_state c, onIceCandidate env u cand (cfg_state c))"
| "step env (OnRemoteStream u st) c =
     advance c (cfg_pending c)
       (case onRemoteStream u st (cfg_state c) of (s, es) \<Rightarrow> (Settled (Inr ()), s, es))"
| "step env (OnConnectionStateChange u st) c =
     advance c (cfg_pending c)
       (case onConnectionStateChange u st (cfg_state c) of
          (s, es) \<Rightarrow> (Settled (Inr ()), s, es))"
| "step env Destroy c =
     advance c (cfg_pending c)
       (case destroy env (cfg_state c) of (s, es) \<Rightarrow> (Settled (Inr ()), s, es))"
| "step env (Settle i) c =
     (if i < length (cfg_pending c)
      then advance c (take i (cfg_pending c) @ drop (Suc i) (cfg_pending c))
             (resume env (cfg_pending c ! i) (cfg_state c))
      else c)"

inductive reachable :: "config \<Rightarrow> bool" where
  reachable_initial: "reachable initial"
| reachable_step: "reachable c \<Longrightarrow> reachable (step env a c)"

subsection \<open>Sessions that exist\<close>

text \<open>The managers that exist after a trace of effects: constructed, and not closed.\<close>

definition live_managers :: "effect list \<Rightarrow> mgr set" where
  "live_managers tr = set (managers_created tr) - set (managers_closed tr)"

text \<open>The registry is sound for a trace: no username is registered twice, no manager is
  registered under two usernames, the registered managers are exactly those that exist,
  and no manager of the trace has the identity that the next one receives.\<close>

definition registry_sound :: "vrm_state \<Rightarrow> effect list \<Rightarrow> bool" where
  "registry_sound s tr \<longleftrightarrow>
     distinct (map fst (peers s)) \<and> distinct (map snd (peers s)) \<and>
     set (map snd (peers s)) = live_managers tr \<and>
     list_all (\<lambda>m. m < nextMgr s) (managers_created tr) \<and>
     list_all (\<lambda>m. m < nextMgr s) (managers_closed tr)"

text \<open>What one piece of code does to the registry, with the managers it constructs and
  closes: nothing, one new session for a username that has none, the session of one
  username closed and deleted, or every session closed and the registry cleared.\<close>

inductive registry_move :: "vrm_state \<Rightarrow> effect list \<Rightarrow> vrm_state \<Rightarrow> bool" where
  move_keep:
    "peers s' = peers s \<Longrightarrow> nextMgr s' = nextMgr s \<Longrightarrow>
     managers_created es = [] \<Longrightarrow> managers_closed es = [] \<Longrightarrow> registry_move s es s'"
| move_add:
    "map_of (peers s) u = None \<Longrightarrow> peers s' = AList.update u (nextMgr s) (peers s) \<Longrightarrow>
     nextMgr s' = Suc (nextMgr s) \<Longrightarrow>
     managers_created es = [nextMgr s] \<Longrightarrow> managers_closed es = [] \<Longrightarrow>
     registry_move s es s'"
| move_remove:
    "peers s' = AList.delete u (peers s) \<Longrightarrow> nextMgr s' = nextMgr s \<Longrightarrow>
     managers_created es = [] \<Longrightarrow>
     managers_closed es = (case map_of (peers s) u of None \<Rightarrow> [] | Some m \<Rightarrow> [m]) \<Longrightarrow>
     registry_move s es s'"
| move_clear:
    "peers s' = [] \<Longrightarrow> nextMgr s' = nextMgr s \<Longrightarrow>
     managers_created es = [] \<Longrightarrow> managers_closed es = map snd (peers s) \<Longrightarrow>
     registry_move s es s'"

subsection \<open>Example runs\<close>

text \<open>Two environments: one where the socket is connected and every awaited operation
  resolves, one where the socket is connected and every awaited operation rejects.\<close>

definition env_ok :: env where
  "env_ok = \<lparr>isConnected = True, getUserMedia = Inr 7,
     mgr_createOffer = Inr ''offer-sdp'', mgr_handleOffer = Inr (),
     mgr_createAnswer = Inr ''answer-sdp'', mgr_handleAnswer = Inr (),
     mgr_addIceCandidate = Inr ()\<rparr>"

definition env_rejecting :: env where
  "env_rejecting = \<lparr>isConnected = True, getUserMedia = Inl (Error ''NotAllowedError''),
     mgr_createOffer = Inl (Error ''InvalidStateError''),
     mgr_handleOffer = Inl (Error ''InvalidStateError''),
     mgr_createAnswer = Inl (Error ''InvalidStateError''),
     mgr_handleAnswer = Inl (Error ''InvalidStateError''),
     mgr_addIceCandidate = Inl (Error ''OperationError'')\<rparr>"

text \<open>\<open>alice\<close> and \<open>bob\<close> have each joined voice in room \<open>lobby\<close>.\<close>

definition alice_joined :: vrm_state where
  "alice_joined =
     fst (snd (joinVoiceChat env_ok (Str ''alice'') (Str ''lobby'') constructor))"

definition bob_joined :: vrm_state where
  "bob_joined = fst (snd (joinVoiceChat env_ok (Str ''bob'') (Str ''lobby'') constructor))"

text \<open>\<open>alice\<close> has then received the voice state of \<open>bob\<close>, and after that his stream.\<close>

definition alice_with_bob :: vrm_state where
  "alice_with_bob = fst (handleVoiceState env_ok (voiceStateMessage bob_joined) alice_joined)"

definition alice_hears_bob :: vrm_state where
  "alice_hears_bob = fst (onRemoteStream (Str ''bob'') 9 alice_with_bob)"

text \<open>Signaling messages as \<open>sendSignaling\<close> of the sender builds them.\<close>

definition signalingMessage :: "string \<Rightarrow> string \<Rightarrow> string \<Rightarrow> message" where
  "signalingMessage kind sender receiver =
     emptyMessage\<lparr>m_type := kind, m_from := Str sender, m_to := Str receiver,
       m_roomname := Str ''lobby'', m_offer := Some ''offer-sdp'',
       m_answer := Some ''answer-sdp'', m_candidate := Some ''candidate''\<rparr>"

text \<open>\<open>alice\<close>, holding a session for \<open>bob\<close>, has then answered an offer of \<open>carol\<close>; and
  after that the stream of \<open>bob\<close> has arrived.\<close>

definition alice_with_bob_carol :: vrm_state where
  "alice_with_bob_carol =
     fst (snd (handleSignaling env_ok (signalingMessage ''webrtc-offer'' ''carol'' ''alice'')
       alice_with_bob))"

definition alice_hears_bob_with_carol :: vrm_state where
  "alice_hears_bob_with_carol = fst (onRemoteStream (Str ''bob'') 9 alice_with_bob_carol)"

text \<open>The same as a run of the transition system, piece by piece: \<open>alice\<close> calls
  \<open>joinVoiceChat\<close>, the capture arrives, the voice state of \<open>bob\<close> arrives, the offer of
  the new manager arrives.\<close>

definition alice_with_bob_run :: config where
  "alice_with_bob_run =
     step env_ok (Settle 0)
       (step env_ok (OnMessage (voiceStateMessage bob_joined))
         (step env_ok (Settle 0)
           (step env_ok (JoinVoiceChat (Str ''alice'') (Str ''lobby'')) initial)))"

text \<open>A run where a message comes between an \<open>await\<close> and its continuation: \<open>alice\<close> is in
  voice, an offer of \<open>bob\<close> arrives and waits for the manager, the voice state of \<open>bob\<close>
  arrives meanwhile, and then the manager refuses the offer.\<close>

definition alice_interleaved_run :: config where
  "alice_interleaved_run =
     step env_rejecting (Settle 0)
       (step env_ok (OnMessage (voiceStateMessage bob_joined))
         (step env_ok (OnMessage (signalingMessage ''webrtc-offer'' ''bob'' ''alice''))
           (step env_ok (Settle 0)
             (step env_ok (JoinVoiceChat (Str ''alice'') (Str ''lobby'')) initial))))"

section \<open>Properties\<close>

subsection \<open>Auxiliary facts\<close>

lemma events_of_append: "events_of (a @ b) = events_of a @ events_of b"
  by (induction a rule: events_of.induct) simp_all

lemma managers_created_append:
  "managers_created (a @ b) = managers_created a @ managers_created b"
  by (induction a rule: managers_created.induct) simp_all

lemma offers_requested_append:
  "offers_requested (a @ b) = offers_requested a @ offers_requested b"
  by (induction a rule: offers_requested.induct) simp_all

lemma events_of_closes: "events_of (map (\<lambda>p. MgrClose (snd p)) ps) = []"
  by (induction ps) simp_all

lemma events_of_broadcast: "events_of (broadcastVoiceState env s) = []"
  by (simp add: broadcastVoiceState_def)

lemma events_of_sendSignaling: "events_of (sendSignaling env data s) = []"
  by (simp add: sendSignaling_def)

lemma delete_absent: "map_of al k = None \<Longrightarrow> AList.delete k al = al"
  by (induction al) (auto split: if_splits)

lemma removePeer_state:
  "fst (removePeer u s) =
     s\<lparr>peers := AList.delete u (peers s), remoteStreams := AList.delete u (remoteStreams s)\<rparr>"
  by (simp add: removePeer_def delete_absent split: option.splits)

lemma removePeer_effects:
  "snd (removePeer u s) =
     (case map_of (peers s) u of Some m \<Rightarrow> [MgrClose m] | None \<Rightarrow> []) @
     (case map_of (remoteStreams s) u of Some st \<Rightarrow> [Emit (VoiceStreamRemoved u)] | None \<Rightarrow> [])"
  by (simp add: removePeer_def split: option.splits)

lemma leaveVoiceChat_not_in_voice: "\<not> inVoice s \<Longrightarrow> leaveVoiceChat env s = (s, [])"
  by (simp add: leaveVoiceChat_def)

lemma leaveVoiceChat_state:
  "inVoice s \<Longrightarrow> fst (leaveVoiceChat env s) =
     s\<lparr>localStream := None, peers := [], remoteStreams := [], inVoice := False\<rparr>"
  by (simp add: leaveVoiceChat_def Let_def)

lemma leaveVoiceChat_events:
  "inVoice s \<Longrightarrow> events_of (snd (leaveVoiceChat env s)) = [VoiceLeft (username s) True]"
  by (simp add: leaveVoiceChat_def Let_def events_of_append events_of_closes
      events_of_broadcast split: option.splits)

subsection \<open>The example runs, evaluated\<close>

lemma alice_joined_eq:
  "alice_joined = \<lparr>inVoice = True, localStream = Some 7, isMuted = False,
     username = Str ''alice'', roomname = Str ''lobby'', peers = [], remoteStreams = [],
     nextMgr = 0\<rparr>"
  by (simp add: alice_joined_def joinVoiceChat_def constructor_def env_ok_def Let_def)

lemma bob_joined_eq:
  "bob_joined = \<lparr>inVoice = True, localStream = Some 7, isMuted = False,
     username = Str ''bob'', roomname = Str ''lobby'', peers = [], remoteStreams = [],
     nextMgr = 0\<rparr>"
  by (simp add: bob_joined_def joinVoiceChat_def constructor_def env_ok_def Let_def)

lemma alice_with_bob_eq:
  "alice_with_bob = \<lparr>inVoice = True, localStream = Some 7, isMuted = False,
     username = Str ''alice'', roomname = Str ''lobby'', peers = [(Str ''bob'', 0)],
     remoteStreams = [], nextMgr = Suc 0\<rparr>"
  by (simp add: alice_with_bob_def alice_joined_eq bob_joined_eq
      handleVoiceState_def voiceStateMessage_def emptyMessage_def
      createPeerConnection_start_def createPeerConnection_resume_def newPeer_def has_def
      sendSignaling_def env_ok_def Let_def)

lemma alice_hears_bob_eq:
  "alice_hears_bob = \<lparr>inVoice = True, localStream = Some 7, isMuted = False,
     username = Str ''alice'', roomname = Str ''lobby'', peers = [(Str ''bob'', 0)],
     remoteStreams = [(Str ''bob'', 9)], nextMgr = Suc 0\<rparr>"
  by (simp add: alice_hears_bob_def alice_with_bob_eq onRemoteStream_def)

lemma alice_with_bob_carol_eq:
  "alice_with_bob_carol = \<lparr>inVoice = True, localStream = Some 7, isMuted = False,
     username = Str ''alice'', roomname = Str ''lobby'',
     peers = [(Str ''bob'', 0), (Str ''carol'', Suc 0)], remoteStreams = [],
     nextMgr = Suc (Suc 0)\<rparr>"
  by (simp add: alice_with_bob_carol_def alice_with_bob_eq
      signalingMessage_def emptyMessage_def handleSignaling_def handleOffer_def newPeer_def
      sendSignaling_def env_ok_def Let_def)

lemma alice_hears_bob_with_carol_eq:
  "alice_hears_bob_with_carol = \<lparr>inVoice = True, localStream = Some 7, isMuted = False,
     username = Str ''alice'', roomname = Str ''lobby'',
     peers = [(Str ''bob'', 0), (Str ''carol'', Suc 0)], remoteStreams = [(Str ''bob'', 9)],
     nextMgr = Suc (Suc 0)\<rparr>"
  by (simp add: alice_hears_bob_with_carol_def alice_with_bob_carol_eq onRemoteStream_def)

subsection \<open>Messages for a peer that has no session\<close>

text \<open>
  Claim C7. When no session is registered for the username \<open>u\<close> (the peer was removed, or
  never had one), an answer or an ICE candidate that arrives from \<open>u\<close> is discarded:
  \<open>handleAnswer\<close> and \<open>handleIceCandidate\<close> resolve with the state as it was (the peer
  registry, the remote streams and every other field) and with no effect, so no manager is
  constructed or called and no event is emitted.
\<close>

theorem late_answer_and_candidate_discarded:
  assumes "map_of (peers s) u = None"
  shows "handleAnswer env u answer s = (Inr (), s, []) \<and>
         handleIceCandidate env u candidate s = (Inr (), s, [])"
  using assms by (simp add: handleAnswer_def handleIceCandidate_def)

theorem late_answer_and_candidate_discarded_witness:
  "map_of (peers (fst (removePeer (Str ''bob'') alice_hears_bob))) (Str ''bob'') = None \<and>
   handleAnswer env_ok (Str ''bob'') (Some ''answer-sdp'')
       (fst (removePeer (Str ''bob'') alice_hears_bob)) =
     (Inr (), fst (removePeer (Str ''bob'') alice_hears_bob), []) \<and>
   handleIceCandidate env_ok (Str ''bob'') (Some ''candidate'')
       (fst (removePeer (Str ''bob'') alice_hears_bob)) =
     (Inr (), fst (removePeer (Str ''bob'') alice_hears_bob), [])"
proof -
  have h: "map_of (peers (fst (removePeer (Str ''bob'') alice_hears_bob))) (Str ''bob'') = None"
    by (simp add: removePeer_state alice_hears_bob_eq)
  show ?thesis
    using h late_answer_and_candidate_discarded [OF h, of env_ok "Some ''answer-sdp''"
        "Some ''candidate''"]
    by simp
qed

subsection \<open>Leaving voice\<close>

text \<open>
  Claim C8. \<open>leaveVoiceChat\<close> is idempotent. Outside voice it returns the state as it was
  and has no effect. So of two calls in a row the second one does nothing, whatever state
  the first one started from; and when the first one started in voice, it did the teardown
  (tracks of the capture stopped, every registered manager closed, registry and remote
  streams emptied, \<open>inVoice\<close> false, and the new voice state, with \<open>inVoice\<close> false, sent
  on the socket if it is connected) and the two calls together emitted exactly one event,
  \<open>voice:left\<close> with \<open>local: true\<close>.
\<close>

theorem leaveVoiceChat_idempotent:
  "(\<not> inVoice s \<longrightarrow> leaveVoiceChat env1 s = (s, [])) \<and>
   leaveVoiceChat env2 (fst (leaveVoiceChat env1 s)) = (fst (leaveVoiceChat env1 s), []) \<and>
   (inVoice s \<longrightarrow>
      fst (leaveVoiceChat env1 s) =
        s\<lparr>localStream := None, peers := [], remoteStreams := [], inVoice := False\<rparr> \<and>
      snd (leaveVoiceChat env1 s) =
        (case localStream s of None \<Rightarrow> [] | Some st \<Rightarrow> [StopTracks st]) @
        map (\<lambda>p. MgrClose (snd p)) (peers s) @
        (if isConnected env1
         then [WsSend \<lparr>m_type = ''voice-state'', m_username = username s,
                 m_roomname = roomname s, m_inVoice = False, m_muted = Some (isMuted s),
                 m_from = Undefined, m_to = Undefined, m_offer = None, m_answer = None,
                 m_candidate = None\<rparr>]
         else []) @
        [Emit (VoiceLeft (username s) True)] \<and>
      events_of (snd (leaveVoiceChat env1 s) @
                 snd (leaveVoiceChat env2 (fst (leaveVoiceChat env1 s)))) =
        [VoiceLeft (username s) True])"
proof (cases "inVoice s")
  case True
  have st: "fst (leaveVoiceChat env1 s) =
      s\<lparr>localStream := None, peers := [], remoteStreams := [], inVoice := False\<rparr>"
    using True by (rule leaveVoiceChat_state)
  have out: "\<not> inVoice (fst (leaveVoiceChat env1 s))"
    by (simp add: st)
  have second: "leaveVoiceChat env2 (fst (leaveVoiceChat env1 s)) =
      (fst (leaveVoiceChat env1 s), [])"
    using out by (rule leaveVoiceChat_not_in_voice)
  have eff: "snd (leaveVoiceChat env1 s) =
      (case localStream s of None \<Rightarrow> [] | Some st \<Rightarrow> [StopTracks st]) @
      map (\<lambda>p. MgrClose (snd p)) (peers s) @
      (if isConnected env1
       then [WsSend \<lparr>m_type = ''voice-state'', m_username = username s,
               m_roomname = roomname s, m_inVoice = False, m_muted = Some (isMuted s),
               m_from = Undefined, m_to = Undefined, m_offer = None, m_answer = None,
               m_candidate = None\<rparr>]
       else []) @
      [Emit (VoiceLeft (username s) True)]"
    using True
    by (simp add: leaveVoiceChat_def broadcastVoiceState_def voiceStateMessage_def
        emptyMessage_def Let_def split: option.splits)
  have ev: "events_of (snd (leaveVoiceChat env1 s) @
      snd (leaveVoiceChat env2 (fst (leaveVoiceChat env1 s)))) = [VoiceLeft (username s) True]"
    using leaveVoiceChat_events [OF True, of env1] by (simp add: second)
  show ?thesis
    using True st second eff ev by blast
next
  case False
  then show ?thesis by (simp add: leaveVoiceChat_not_in_voice)
qed

theorem leaveVoiceChat_idempotent_witness:
  "inVoice alice_hears_bob \<and>
   \<not> inVoice (fst (leaveVoiceChat env_ok alice_hears_bob)) \<and>
   leaveVoiceChat env_ok (fst (leaveVoiceChat env_ok alice_hears_bob)) =
     (fst (leaveVoiceChat env_ok alice_hears_bob), []) \<and>
   events_of (snd (leaveVoiceChat env_ok alice_hears_bob) @
              snd (leaveVoiceChat env_ok (fst (leaveVoiceChat env_ok alice_hears_bob)))) =
     [VoiceLeft (Str ''alice'') True] \<and>
   isConnected env_ok \<and>
   snd (leaveVoiceChat env_ok alice_hears_bob) =
     [StopTracks 7, MgrClose 0,
      WsSend \<lparr>m_type = ''voice-state'', m_username = Str ''alice'',
        m_roomname = Str ''lobby'', m_inVoice = False, m_muted = Some False,
        m_from = Undefined, m_to = Undefined, m_offer = None, m_answer = None,
        m_candidate = None\<rparr>,
      Emit (VoiceLeft (Str ''alice'') True)]"
proof -
  have h: "inVoice alice_hears_bob"
    by (simp add: alice_hears_bob_eq)
  have u: "username alice_hears_bob = Str ''alice''"
    by (simp add: alice_hears_bob_eq)
  have k: "isConnected env_ok"
    by (simp add: env_ok_def)
  note t = leaveVoiceChat_idempotent [of alice_hears_bob env_ok env_ok]
  have a: "leaveVoiceChat env_ok (fst (leaveVoiceChat env_ok alice_hears_bob)) =
      (fst (leaveVoiceChat env_ok alice_hears_bob), [])"
    using t by blast
  have b: "fst (leaveVoiceChat env_ok alice_hears_bob) =
      alice_hears_bob\<lparr>localStream := None, peers := [], remoteStreams := [],
        inVoice := False\<rparr>"
    using h t by blast
  have c: "events_of (snd (leaveVoiceChat env_ok alice_hears_bob) @
      snd (leaveVoiceChat env_ok (fst (leaveVoiceChat env_ok alice_hears_bob)))) =
      [VoiceLeft (username alice_hears_bob) True]"
    using h t by blast
  have d: "\<not> inVoice (fst (leaveVoiceChat env_ok alice_hears_bob))"
    by (simp add: b)
  have "snd (leaveVoiceChat env_ok alice_hears_bob) =
      (case localStream alice_hears_bob of None \<Rightarrow> [] | Some st \<Rightarrow> [StopTracks st]) @
      map (\<lambda>p. MgrClose (snd p)) (peers alice_hears_bob) @
      (if isConnected env_ok
       then [WsSend \<lparr>m_type = ''voice-state'', m_username = username alice_hears_bob,
               m_roomname = roomname alice_hears_bob, m_inVoice = False,
               m_muted = Some (isMuted alice_hears_bob), m_from = Undefined,
               m_to = Undefined, m_offer = None, m_answer = None, m_candidate = None\<rparr>]
       else []) @
      [Emit (VoiceLeft (username alice_hears_bob) True)]"
    using h t by blast
  then have e: "snd (leaveVoiceChat env_ok alice_hears_bob) =
      [StopTracks 7, MgrClose 0,
       WsSend \<lparr>m_type = ''voice-state'', m_username = Str ''alice'',
         m_roomname = Str ''lobby'', m_inVoice = False, m_muted = Some False,
         m_from = Undefined, m_to = Undefined, m_offer = None, m_answer = None,
         m_candidate = None\<rparr>,
       Emit (VoiceLeft (Str ''alice'') True)]"
    by (simp add: k alice_hears_bob_eq)
  show ?thesis
    using h d a c [unfolded u] k e by blast
qed

text \<open>
  Claim C9. When \<open>leaveVoiceChat\<close> runs in voice, it empties the peer registry and the
  remote streams in bulk, and the only event it emits is \<open>voice:left\<close> with \<open>local: true\<close>:
  no \<open>voice:stream-removed\<close> for any stream it drops. \<open>removePeer\<close>, in contrast, emits
  \<open>voice:stream-removed\<close> for the stream it releases.
\<close>

theorem leaveVoiceChat_emits_no_stream_removed:
  assumes "inVoice s"
  shows "peers (fst (leaveVoiceChat env s)) = [] \<and>
         remoteStreams (fst (leaveVoiceChat env s)) = [] \<and>
         events_of (snd (leaveVoiceChat env s)) = [VoiceLeft (username s) True] \<and>
         (\<forall>u. VoiceStreamRemoved u \<notin> set (events_of (snd (leaveVoiceChat env s)))) \<and>
         (\<forall>u st. map_of (remoteStreams s) u = Some st \<longrightarrow>
            events_of (snd (removePeer u s)) = [VoiceStreamRemoved u] \<and>
            map_of (remoteStreams (fst (removePeer u s))) u = None)"
proof -
  have ev: "events_of (snd (leaveVoiceChat env s)) = [VoiceLeft (username s) True]"
    using assms by (rule leaveVoiceChat_events)
  have st: "peers (fst (leaveVoiceChat env s)) = [] \<and>
      remoteStreams (fst (leaveVoiceChat env s)) = []"
    using assms by (simp add: leaveVoiceChat_state)
  have rm: "events_of (snd (removePeer u s)) = [VoiceStreamRemoved u] \<and>
      map_of (remoteStreams (fst (removePeer u s))) u = None"
    if "map_of (remoteStreams s) u = Some st" for u st
    using that
    by (simp add: removePeer_effects removePeer_state events_of_append AList.delete_conv
        split: option.splits)
  show ?thesis
    using ev st rm by simp
qed

theorem leaveVoiceChat_emits_no_stream_removed_witness:
  "inVoice alice_hears_bob \<and>
   map_of (remoteStreams alice_hears_bob) (Str ''bob'') = Some 9 \<and>
   remoteStreams (fst (leaveVoiceChat env_ok alice_hears_bob)) = [] \<and>
   events_of (snd (leaveVoiceChat env_ok alice_hears_bob)) =
     [VoiceLeft (Str ''alice'') True] \<and>
   events_of (snd (removePeer (Str ''bob'') alice_hears_bob)) =
     [VoiceStreamRemoved (Str ''bob'')]"
proof -
  have h: "inVoice alice_hears_bob"
    by (simp add: alice_hears_bob_eq)
  have r: "map_of (remoteStreams alice_hears_bob) (Str ''bob'') = Some 9"
    by (simp add: alice_hears_bob_eq)
  have u: "username alice_hears_bob = Str ''alice''"
    by (simp add: alice_hears_bob_eq)
  note t = leaveVoiceChat_emits_no_stream_removed [OF h, of env_ok]
  have a: "remoteStreams (fst (leaveVoiceChat env_ok alice_hears_bob)) = []"
    using t by blast
  have b: "events_of (snd (leaveVoiceChat env_ok alice_hears_bob)) =
      [VoiceLeft (username alice_hears_bob) True]"
    using t by blast
  have c: "events_of (snd (removePeer (Str ''bob'') alice_hears_bob)) =
      [VoiceStreamRemoved (Str ''bob'')]"
    using t r by blast
  show ?thesis
    using h r a b [unfolded u] c by blast
qed

subsection \<open>Joining voice\<close>

text \<open>
  Claim C4, as the code has it. \<open>joinVoiceChat\<close> called while in voice is a silent no-op:
  the promise resolves (no error is raised), and the state (the \<open>inVoice\<close> flag, the local
  capture, every registered peer session) is as it was, with no effect.
\<close>

theorem joinVoiceChat_in_voice_is_noop:
  assumes "inVoice s"
  shows "joinVoiceChat env uname rname s = (Inr (), s, [])"
  using assms by (simp add: joinVoiceChat_def)

theorem joinVoiceChat_in_voice_is_noop_witness:
  "inVoice alice_with_bob \<and>
   joinVoiceChat env_ok (Str ''alice'') (Str ''lobby'') alice_with_bob =
     (Inr (), alice_with_bob, [])"
proof -
  have h: "inVoice alice_with_bob"
    by (simp add: alice_with_bob_eq)
  show ?thesis
    using h joinVoiceChat_in_voice_is_noop [OF h, of env_ok "Str ''alice''" "Str ''lobby''"]
    by simp
qed

text \<open>The claim as the specification states it (the call fails with an error) does not
  hold: \<open>alice\<close>, in voice, joins again and the call succeeds.\<close>

theorem joinVoiceChat_in_voice_no_error:
  "inVoice alice_with_bob \<and>
   fst (joinVoiceChat env_ok (Str ''alice'') (Str ''lobby'') alice_with_bob) = Inr ()"
  by (simp add: alice_with_bob_eq joinVoiceChat_def)

text \<open>
  Claim C5, as the code has it. When the capture is refused, \<open>joinVoiceChat\<close> rejects with
  the error of \<open>getUserMedia\<close> and emits \<open>voice:error\<close>; \<open>inVoice\<close> stays false, and the
  capture, the registry, the remote streams and the mute flag are as before. The fields
  \<open>username\<close> and \<open>roomname\<close> are not: they hold the arguments of the call, assigned
  before the capture is requested.
\<close>

theorem joinVoiceChat_media_denied:
  assumes "\<not> inVoice s" and "\<not> falsy uname" and "\<not> falsy rname"
    and "getUserMedia env = Inl err"
  shows "joinVoiceChat env uname rname s =
           (Inl err, s\<lparr>username := uname, roomname := rname\<rparr>,
            [RequestUserMedia, Emit (VoiceError ''Microphone access denied'' err)]) \<and>
         \<not> inVoice (fst (snd (joinVoiceChat env uname rname s))) \<and>
         localStream (fst (snd (joinVoiceChat env uname rname s))) = localStream s \<and>
         peers (fst (snd (joinVoiceChat env uname rname s))) = peers s \<and>
         remoteStreams (fst (snd (joinVoiceChat env uname rname s))) = remoteStreams s \<and>
         isMuted (fst (snd (joinVoiceChat env uname rname s))) = isMuted s"
  using assms by (simp add: joinVoiceChat_def)

theorem joinVoiceChat_media_denied_witness:
  "\<not> inVoice constructor \<and> \<not> falsy (Str ''dave'') \<and> \<not> falsy (Str ''party'') \<and>
   getUserMedia env_rejecting = Inl (Error ''NotAllowedError'') \<and>
   joinVoiceChat env_rejecting (Str ''dave'') (Str ''party'') constructor =
     (Inl (Error ''NotAllowedError''),
      constructor\<lparr>username := Str ''dave'', roomname := Str ''party''\<rparr>,
      [RequestUserMedia,
       Emit (VoiceError ''Microphone access denied'' (Error ''NotAllowedError''))])"
proof -
  have h1: "\<not> inVoice constructor"
    by (simp add: constructor_def)
  have h2: "\<not> falsy (Str ''dave'')" and h3: "\<not> falsy (Str ''party'')"
    by simp_all
  have h4: "getUserMedia env_rejecting = Inl (Error ''NotAllowedError'')"
    by (simp add: env_rejecting_def)
  show ?thesis
    using h1 h2 h3 h4 joinVoiceChat_media_denied [OF h1 h2 h3 h4] by blast
qed

text \<open>The claim as the specification states it (no field is modified) does not hold:
  after the refused join of \<open>dave\<close> the username is no longer \<open>null\<close>.\<close>

theorem joinVoiceChat_media_denied_changes_username:
  "getUserMedia env_rejecting = Inl (Error ''NotAllowedError'') \<and>
   username constructor = Null \<and>
   username (fst (snd (joinVoiceChat env_rejecting (Str ''dave'') (Str ''party'')
     constructor))) = Str ''dave'' \<and>
   roomname (fst (snd (joinVoiceChat env_rejecting (Str ''dave'') (Str ''party'')
     constructor))) = Str ''party''"
  by (simp add: joinVoiceChat_def constructor_def env_rejecting_def)

subsection \<open>Signaling messages\<close>

text \<open>
  Claim C3, as the code has it. \<open>handleSignaling\<close> discards every message whose \<open>from\<close>
  is the local username: the promise resolves, the state is as it was and there is no
  effect (no session created or removed, no event). The field \<open>to\<close> is never read: a
  message is handled the same whatever its \<open>to\<close> is.
\<close>

theorem handleSignaling_discards_own_messages:
  assumes "m_from data = username s"
  shows "handleSignaling env data s = (Inr (), s, []) \<and>
         handleSignaling env' (data'\<lparr>m_to := t\<rparr>) s' = handleSignaling env' data' s'"
  using assms by (simp add: handleSignaling_def)

theorem handleSignaling_discards_own_messages_witness:
  "m_from (signalingMessage ''webrtc-offer'' ''alice'' ''bob'') = username alice_with_bob \<and>
   handleSignaling env_ok (signalingMessage ''webrtc-offer'' ''alice'' ''bob'')
     alice_with_bob = (Inr (), alice_with_bob, [])"
proof -
  have h: "m_from (signalingMessage ''webrtc-offer'' ''alice'' ''bob'') =
      username alice_with_bob"
    by (simp add: signalingMessage_def alice_with_bob_eq)
  show ?thesis
    using h handleSignaling_discards_own_messages [OF h, of env_ok] by blast
qed

text \<open>The claim as the specification states it (a message whose \<open>to\<close> is not the local
  username is discarded) does not hold: \<open>alice\<close> receives an offer that \<open>bob\<close> addressed
  to \<open>carol\<close>, and registers a session for \<open>bob\<close>.\<close>

theorem handleSignaling_ignores_to:
  "m_to (signalingMessage ''webrtc-offer'' ''bob'' ''carol'') \<noteq> username alice_joined \<and>
   peers alice_joined = [] \<and>
   peers (fst (snd (handleSignaling env_ok
     (signalingMessage ''webrtc-offer'' ''bob'' ''carol'') alice_joined))) =
     [(Str ''bob'', 0)] \<and>
   managers_created (snd (snd (handleSignaling env_ok
     (signalingMessage ''webrtc-offer'' ''bob'' ''carol'') alice_joined))) = [0]"
  by (simp add: signalingMessage_def emptyMessage_def alice_joined_eq handleSignaling_def
      handleOffer_def newPeer_def env_ok_def sendSignaling_def Let_def)

subsection \<open>Voice state messages\<close>

lemma handleVoiceState_username:
  "username (fst (handleVoiceState env data s)) = username s"
  by (simp add: handleVoiceState_def createPeerConnection_start_def
      createPeerConnection_resume_def newPeer_def removePeer_state Let_def split_def
      split: option.splits sum.splits)

lemma handleVoiceState_joined_once:
  assumes "m_inVoice data" and "m_username data \<noteq> username s"
  shows "count_list (events_of (snd (handleVoiceState env data s)))
           (VoiceJoined (m_username data) False) = 1"
  using assms
  by (simp add: handleVoiceState_def createPeerConnection_start_def
      createPeerConnection_resume_def newPeer_def removePeer_effects Let_def split_def
      events_of_append events_of_sendSignaling split: option.splits sum.splits)

text \<open>
  Claim C10. A voice-state message with \<open>inVoice\<close> true from another username makes
  \<open>handleVoiceState\<close> emit \<open>voice:joined\<close> with \<open>local: false\<close>, in every state: with or
  without a session for that remote, in voice or not. So the same message processed again
  emits the event again.
\<close>

theorem handleVoiceState_joined_every_time:
  assumes "m_inVoice data" and "m_username data \<noteq> username s"
  shows "count_list (events_of (snd (handleVoiceState env1 data s)))
           (VoiceJoined (m_username data) False) = 1 \<and>
         count_list (events_of (snd (handleVoiceState env2 data
             (fst (handleVoiceState env1 data s)))))
           (VoiceJoined (m_username data) False) = 1"
proof -
  have "m_username data \<noteq> username (fst (handleVoiceState env1 data s))"
    using assms(2) by (simp add: handleVoiceState_username)
  then show ?thesis
    using assms handleVoiceState_joined_once by blast
qed

theorem handleVoiceState_joined_every_time_witness:
  "m_inVoice (voiceStateMessage bob_joined) \<and>
   m_username (voiceStateMessage bob_joined) \<noteq> username alice_with_bob \<and>
   map_of (peers alice_with_bob) (Str ''bob'') = Some 0 \<and>
   count_list (events_of (snd (handleVoiceState env_ok (voiceStateMessage bob_joined)
       alice_with_bob)))
     (VoiceJoined (Str ''bob'') False) = 1 \<and>
   count_list (events_of (snd (handleVoiceState env_ok (voiceStateMessage bob_joined)
       (fst (handleVoiceState env_ok (voiceStateMessage bob_joined) alice_with_bob)))))
     (VoiceJoined (Str ''bob'') False) = 1"
proof -
  have h1: "m_inVoice (voiceStateMessage bob_joined)"
    by (simp add: voiceStateMessage_def bob_joined_eq)
  have h2: "m_username (voiceStateMessage bob_joined) \<noteq> username alice_with_bob"
    by (simp add: voiceStateMessage_def bob_joined_eq alice_with_bob_eq)
  have u: "m_username (voiceStateMessage bob_joined) = Str ''bob''"
    by (simp add: voiceStateMessage_def bob_joined_eq)
  have p: "map_of (peers alice_with_bob) (Str ''bob'') = Some 0"
    by (simp add: alice_with_bob_eq)
  show ?thesis
    using h1 h2 p handleVoiceState_joined_every_time [OF h1 h2, of env_ok env_ok, unfolded u]
    by blast
qed

subsection \<open>Failures of one peer\<close>

lemma map_of_update_other: "v \<noteq> u \<Longrightarrow> map_of (AList.update u m al) v = map_of al v"
  by (simp add: AList.update_conv')

lemma map_of_delete_same: "map_of (AList.delete u al) u = None"
  by (simp add: AList.delete_conv')

lemma newPeer_state:
  "fst (snd (newPeer u s)) =
     s\<lparr>peers := AList.update u (nextMgr s) (peers s), nextMgr := Suc (nextMgr s)\<rparr>"
  by (simp add: newPeer_def Let_def)

lemma handleOffer_state:
  "fst (snd (handleOffer env u offer s)) =
     (let s1 = (case map_of (peers s) u of None \<Rightarrow> fst (snd (newPeer u s)) | Some m \<Rightarrow> s)
      in case mgr_handleOffer env of
           Inl err \<Rightarrow> fst (removePeer u s1)
         | Inr ok \<Rightarrow> (case mgr_createAnswer env of
                         Inl err \<Rightarrow> fst (removePeer u s1)
                       | Inr answer \<Rightarrow> s1))"
  by (simp add: handleOffer_def Let_def split_def split: option.splits sum.splits)

lemma handleOffer_resolves: "fst (handleOffer env u offer s) = Inr ()"
  by (simp add: handleOffer_def Let_def split_def split: option.splits sum.splits)

lemma handleAnswer_resolves: "fst (handleAnswer env u answer s) = Inr ()"
  by (simp add: handleAnswer_def Let_def split_def split: option.splits sum.splits)

lemma handleIceCandidate_resolves: "fst (handleIceCandidate env u candidate s) = Inr ()"
  by (simp add: handleIceCandidate_def split: option.splits sum.splits)

lemma handleSignaling_resolves: "fst (handleSignaling env data s) = Inr ()"
  by (simp add: handleSignaling_def handleOffer_resolves handleAnswer_resolves
      handleIceCandidate_resolves)

lemma createPeerConnection_resolves: "fst (createPeerConnection env u s) = Inr ()"
  by (simp add: createPeerConnection_def split_def Let_def split: option.splits)

lemma handleOffer_others:
  assumes "v \<noteq> u"
  shows "map_of (peers (fst (snd (handleOffer env u offer s)))) v = map_of (peers s) v \<and>
         map_of (remoteStreams (fst (snd (handleOffer env u offer s)))) v =
           map_of (remoteStreams s) v"
  using assms
  by (simp add: handleOffer_state newPeer_state removePeer_state map_of_update_other
      split: option.splits sum.splits)

lemma handleAnswer_others:
  assumes "v \<noteq> u"
  shows "map_of (peers (fst (snd (handleAnswer env u answer s)))) v = map_of (peers s) v \<and>
         map_of (remoteStreams (fst (snd (handleAnswer env u answer s)))) v =
           map_of (remoteStreams s) v"
  using assms
  by (simp add: handleAnswer_def removePeer_state split_def split: option.splits sum.splits)

lemma handleIceCandidate_state: "fst (snd (handleIceCandidate env u candidate s)) = s"
  by (simp add: handleIceCandidate_def split: option.splits sum.splits)

lemma handleSignaling_others:
  assumes "v \<noteq> m_from data"
  shows "map_of (peers (fst (snd (handleSignaling env data s)))) v = map_of (peers s) v \<and>
         map_of (remoteStreams (fst (snd (handleSignaling env data s)))) v =
           map_of (remoteStreams s) v"
  using assms
  by (simp add: handleSignaling_def handleOffer_others handleAnswer_others
      handleIceCandidate_state)

lemma createPeerConnection_state:
  "fst (snd (createPeerConnection env u s)) =
     (case map_of (peers s) u of
        Some m \<Rightarrow> s
      | None \<Rightarrow> (case mgr_createOffer env of
                   Inr offer \<Rightarrow> fst (snd (newPeer u s))
                 | Inl err \<Rightarrow> fst (removePeer u (fst (snd (newPeer u s))))))"
  by (simp add: createPeerConnection_def createPeerConnection_start_def
      createPeerConnection_resume_def has_def Let_def split_def
      split: option.splits sum.splits)

lemma createPeerConnection_others:
  assumes "v \<noteq> u"
  shows "map_of (peers (fst (snd (createPeerConnection env u s)))) v = map_of (peers s) v \<and>
         map_of (remoteStreams (fst (snd (createPeerConnection env u s)))) v =
           map_of (remoteStreams s) v"
  using assms
  by (simp add: createPeerConnection_state newPeer_state removePeer_state
      map_of_update_other split: option.splits sum.splits)

lemma handleOffer_failure:
  assumes "mgr_handleOffer env = Inl e \<or> mgr_createAnswer env = Inl e"
  shows "map_of (peers (fst (snd (handleOffer env u offer s)))) u = None \<and>
         map_of (remoteStreams (fst (snd (handleOffer env u offer s)))) u = None \<and>
         MgrClose (case map_of (peers s) u of None \<Rightarrow> nextMgr s | Some m \<Rightarrow> m)
           \<in> set (snd (snd (handleOffer env u offer s)))"
proof -
  have st: "fst (snd (handleOffer env u offer s)) =
      fst (removePeer u
        (case map_of (peers s) u of None \<Rightarrow> fst (snd (newPeer u s)) | Some m \<Rightarrow> s))"
    using assms by (auto simp add: handleOffer_state Let_def split: sum.splits)
  have cl: "MgrClose (case map_of (peers s) u of None \<Rightarrow> nextMgr s | Some m \<Rightarrow> m)
      \<in> set (snd (snd (handleOffer env u offer s)))"
    using assms
    by (auto simp add: handleOffer_def newPeer_def removePeer_effects Let_def split_def
        AList.update_conv' split: option.splits sum.splits)
  show ?thesis
    by (simp add: st cl removePeer_state map_of_delete_same)
qed

lemma handleAnswer_failure:
  assumes "map_of (peers s) u = Some m" and "mgr_handleAnswer env = Inl e"
  shows "map_of (peers (fst (snd (handleAnswer env u answer s)))) u = None \<and>
         map_of (remoteStreams (fst (snd (handleAnswer env u answer s)))) u = None \<and>
         MgrClose m \<in> set (snd (snd (handleAnswer env u answer s)))"
  using assms
  by (simp add: handleAnswer_def removePeer_state removePeer_effects split_def
      map_of_delete_same)

lemma createPeerConnection_failure:
  assumes "map_of (peers s) u = None" and "mgr_createOffer env = Inl e"
  shows "map_of (peers (fst (snd (createPeerConnection env u s)))) u = None \<and>
         map_of (remoteStreams (fst (snd (createPeerConnection env u s)))) u = None \<and>
         MgrClose (nextMgr s) \<in> set (snd (snd (createPeerConnection env u s)))"
  using assms
  by (simp add: createPeerConnection_def createPeerConnection_start_def
      createPeerConnection_resume_def has_def newPeer_def removePeer_state
      removePeer_effects Let_def split_def map_of_delete_same AList.update_conv')

lemma handleIceCandidate_keeps_session:
  assumes "map_of (peers s) u = Some m"
  shows "handleIceCandidate env u candidate s = (Inr (), s, [MgrAddIceCandidate m candidate])"
  using assms by (simp add: handleIceCandidate_def split: sum.splits)

subsection \<open>The pieces of a method, run without interruption, are the method\<close>

lemma joinVoiceChat_pieces:
  "settle_now env (joinVoiceChat_start uname rname s) =
     (case joinVoiceChat env uname rname s of (x, s', es) \<Rightarrow> (Settled x, s', es))"
  by (simp add: settle_now_def joinVoiceChat_start_def joinVoiceChat_def Let_def
      split: sum.splits)

lemma handleOffer_pieces:
  "settle_now env (settle_now env (handleOffer_start frm offer s)) =
     (case handleOffer env frm offer s of (x, s', es) \<Rightarrow> (Settled x, s', es))"
  by (simp add: settle_now_def handleOffer_start_def handleOffer_def Let_def split_def
      split: sum.splits option.splits)

lemma handleAnswer_pieces:
  "settle_now env (handleAnswer_start frm answer s) =
     (case handleAnswer env frm answer s of (x, s', es) \<Rightarrow> (Settled x, s', es))"
  by (simp add: settle_now_def handleAnswer_start_def handleAnswer_def Let_def split_def
      split: sum.splits option.splits)

lemma handleIceCandidate_pieces:
  "settle_now env (handleIceCandidate_start frm candidate s) =
     (case handleIceCandidate env frm candidate s of (x, s', es) \<Rightarrow> (Settled x, s', es))"
  by (simp add: settle_now_def handleIceCandidate_start_def handleIceCandidate_def
      split: sum.splits option.splits)

lemma settle_now_Settled: "settle_now env (Settled x, s, es) = (Settled x, s, es)"
  by (simp add: settle_now_def)

lemma settle_now_settled:
  "settle_now env (case r of (x, rest) \<Rightarrow> (Settled x, rest)) =
     (case r of (x, rest) \<Rightarrow> (Settled x, rest))"
  by (cases r) (simp add: settle_now_def split: prod.splits)

lemma handleSignaling_pieces:
  "settle_now env (settle_now env (handleSignaling_start data s)) =
     (case handleSignaling env data s of (x, s', es) \<Rightarrow> (Settled x, s', es))"
  by (simp add: handleSignaling_start_def handleSignaling_def handleOffer_pieces
      handleAnswer_pieces handleIceCandidate_pieces settle_now_Settled settle_now_settled)

lemma handleVoiceState_pieces:
  "settle_now env (handleVoiceState_start data s) =
     (case handleVoiceState env data s of (s', es) \<Rightarrow> (Settled (Inr ()), s', es))"
  by (simp add: settle_now_def handleVoiceState_start_def handleVoiceState_def Let_def
      split_def createPeerConnection_start_def split: option.splits)

subsection \<open>One session for each remote username\<close>

lemma managers_closed_append:
  "managers_closed (a @ b) = managers_closed a @ managers_closed b"
  by (induction a rule: managers_closed.induct) simp_all

lemma managers_closed_iff: "m \<in> set (managers_closed tr) \<longleftrightarrow> MgrClose m \<in> set tr"
  by (induction tr rule: managers_closed.induct) auto

lemma managers_created_iff: "m \<in> set (managers_created tr) \<longleftrightarrow> NewManager m \<in> set tr"
  by (induction tr rule: managers_created.induct) auto

lemma quiet_sendSignaling:
  "managers_created (sendSignaling env data s) = [] \<and>
   managers_closed (sendSignaling env data s) = []"
  by (simp add: sendSignaling_def)

lemma quiet_broadcastVoiceState:
  "managers_created (broadcastVoiceState env s) = [] \<and>
   managers_closed (broadcastVoiceState env s) = []"
  by (simp add: broadcastVoiceState_def)

lemma closes_all:
  "managers_created (map (\<lambda>p. MgrClose (snd p)) ps) = [] \<and>
   managers_closed (map (\<lambda>p. MgrClose (snd p)) ps) = map snd ps"
  by (induction ps) simp_all

lemma removePeer_peers: "peers (fst (removePeer u s)) = AList.delete u (peers s)"
  by (simp add: removePeer_state)

lemma update_absent: "map_of al k = None \<Longrightarrow> AList.update k v al = al @ [(k, v)]"
  by (induction al) (auto split: if_splits)

lemma delete_update_absent:
  "map_of al k = None \<Longrightarrow> AList.delete k (AList.update k v al) = al"
proof -
  assume a: "map_of al k = None"
  have "AList.delete k (al @ [(k, v)]) = AList.delete k al"
    by (simp add: AList.delete_eq)
  then show ?thesis
    using a by (simp add: update_absent delete_absent)
qed

lemma values_delete:
  assumes "distinct (map fst al)" and "distinct (map snd al)" and "map_of al k = Some v"
  shows "set (map snd (AList.delete k al)) = set (map snd al) - {v}"
  using assms
proof (induction al)
  case Nil
  then show ?case by simp
next
  case (Cons p al)
  show ?case
  proof (cases "fst p = k")
    case True
    then have v: "snd p = v"
      using Cons.prems(3) by (cases p) simp
    have "k \<notin> fst ` set al"
      using Cons.prems(1) True by auto
    then have "AList.delete k al = al"
      by (rule AList.delete_id)
    moreover have "v \<notin> set (map snd al)"
      using Cons.prems(2) v by auto
    ultimately show ?thesis
      using True v by auto
  next
    case False
    then have "map_of al k = Some v"
      using Cons.prems(3) by (cases p) simp
    moreover have "snd p \<noteq> v"
      using Cons.prems(2) \<open>map_of al k = Some v\<close>
      by (cases p) (auto dest: map_of_SomeD intro: rev_image_eqI)
    ultimately show ?thesis
      using Cons False by auto
  qed
qed

lemma distinct_values_delete:
  "distinct (map snd al) \<Longrightarrow> distinct (map snd (AList.delete k al))"
  by (simp add: AList.delete_eq distinct_map_filter)

lemma move_removePeer: "registry_move s (snd (removePeer u s)) (fst (removePeer u s))"
  by (rule move_remove [where u = u])
    (simp_all add: removePeer_state removePeer_effects managers_created_append
      managers_closed_append split: option.splits)

lemma move_newPeer:
  assumes "map_of (peers s) u = None"
  shows "registry_move s (snd (snd (newPeer u s))) (fst (snd (newPeer u s)))"
  using assms
  by (intro move_add [where u = u]) (simp_all add: newPeer_def Let_def split: option.splits)

lemma move_after:
  assumes "registry_move s es s'" and "managers_created tail = []"
    and "managers_closed tail = []"
  shows "registry_move s (es @ tail) s'"
  using assms
  by (induction rule: registry_move.induct)
    (auto intro: registry_move.intros simp add: managers_created_append
      managers_closed_append)

lemma move_before:
  assumes "registry_move s es s'" and "managers_created front = []"
    and "managers_closed front = []"
  shows "registry_move s (front @ es) s'"
  using assms
  by (induction rule: registry_move.induct)
    (auto intro: registry_move.intros simp add: managers_created_append
      managers_closed_append)

lemma move_nothing:
  assumes "managers_created es = []" and "managers_closed es = []"
  shows "registry_move s es s"
  using assms by (intro move_keep) simp_all

lemma move_createPeerConnection_start:
  "registry_move s (snd (snd (createPeerConnection_start u s)))
     (fst (snd (createPeerConnection_start u s)))"
proof (cases "map_of (peers s) u")
  case None
  then show ?thesis
    using move_after [OF move_newPeer [OF None], where tail = "[MgrCreateOffer (nextMgr s)]"]
    by (simp add: createPeerConnection_start_def has_def split_def newPeer_def Let_def)
next
  case (Some m)
  then show ?thesis
    by (simp add: createPeerConnection_start_def has_def move_nothing)
qed

lemma move_createPeerConnection_resume:
  "registry_move s (snd (createPeerConnection_resume env u s))
     (fst (createPeerConnection_resume env u s))"
  by (simp add: createPeerConnection_resume_def move_removePeer move_nothing
      quiet_sendSignaling split: sum.splits)

lemma move_handleVoiceState_start:
  "registry_move s (snd (snd (handleVoiceState_start data s)))
     (fst (snd (handleVoiceState_start data s)))"
proof -
  let ?u = "m_username data"
  let ?e2 = "case m_muted data of None \<Rightarrow> [] | Some muted \<Rightarrow> [Emit (VoiceMuted ?u muted)]"
  have q: "managers_created ?e2 = [] \<and> managers_closed ?e2 = []"
    by (simp split: option.splits)
  have c: "registry_move s
      ((Emit (VoiceJoined ?u False) # snd (snd (createPeerConnection_start ?u s))) @ ?e2)
      (fst (snd (createPeerConnection_start ?u s)))"
  proof -
    have "registry_move s
        ([Emit (VoiceJoined ?u False)] @ snd (snd (createPeerConnection_start ?u s)))
        (fst (snd (createPeerConnection_start ?u s)))"
      by (rule move_before) (rule move_createPeerConnection_start, simp_all)
    from move_after [OF this, where tail = ?e2] q show ?thesis
      by simp
  qed
  have r: "registry_move s
      ((snd (removePeer ?u s) @ [Emit (VoiceLeft ?u False)]) @ ?e2)
      (fst (removePeer ?u s))"
  proof -
    have "registry_move s (snd (removePeer ?u s) @ [Emit (VoiceLeft ?u False)])
        (fst (removePeer ?u s))"
      by (rule move_after) (rule move_removePeer, simp_all)
    from move_after [OF this, where tail = ?e2] q show ?thesis
      by simp
  qed
  have n: "registry_move s (Emit (VoiceJoined ?u False) # ?e2) s"
    using q by (simp add: move_nothing)
  show ?thesis
    using c r n
    by (simp add: handleVoiceState_start_def Let_def split_def move_nothing)
qed

lemma move_handleOffer_start:
  "registry_move s (snd (snd (handleOffer_start u offer s)))
     (fst (snd (handleOffer_start u offer s)))"
proof (cases "map_of (peers s) u")
  case None
  then show ?thesis
    using move_after [OF move_newPeer [OF None],
        where tail = "[MgrHandleOffer (nextMgr s) offer]"]
    by (simp add: handleOffer_start_def split_def newPeer_def Let_def)
next
  case (Some m)
  then show ?thesis
    by (simp add: handleOffer_start_def move_nothing)
qed

lemma move_handleSignaling_start:
  "registry_move s (snd (snd (handleSignaling_start data s)))
     (fst (snd (handleSignaling_start data s)))"
  by (simp add: handleSignaling_start_def move_handleOffer_start handleAnswer_start_def
      handleIceCandidate_start_def move_nothing split: option.splits)

lemma move_onMessage:
  "registry_move s (snd (snd (onMessage data s))) (fst (snd (onMessage data s)))"
  by (simp add: onMessage_def move_handleSignaling_start move_handleVoiceState_start
      move_nothing)

lemma move_joinVoiceChat_start:
  "registry_move s (snd (snd (joinVoiceChat_start u r s)))
     (fst (snd (joinVoiceChat_start u r s)))"
  by (rule move_keep) (simp_all add: joinVoiceChat_start_def)

lemma move_leaveVoiceChat:
  "registry_move s (snd (leaveVoiceChat env s)) (fst (leaveVoiceChat env s))"
proof (cases "inVoice s")
  case True
  show ?thesis
    by (rule move_clear)
      (simp_all add: True leaveVoiceChat_def Let_def managers_created_append
        managers_closed_append closes_all quiet_broadcastVoiceState split: option.splits)
next
  case False
  then show ?thesis
    by (simp add: leaveVoiceChat_def move_nothing)
qed

lemma move_toggleMute:
  "registry_move s (snd (snd (toggleMute env s))) (fst (snd (toggleMute env s)))"
  by (rule move_keep)
    (simp_all add: toggleMute_def Let_def managers_created_append managers_closed_append
      quiet_broadcastVoiceState split: option.splits)

lemma move_onRemoteStream:
  "registry_move s (snd (onRemoteStream u st s)) (fst (onRemoteStream u st s))"
  by (rule move_keep) (simp_all add: onRemoteStream_def)

lemma move_onConnectionStateChange:
  "registry_move s (snd (onConnectionStateChange u st s))
     (fst (onConnectionStateChange u st s))"
proof -
  have "registry_move s ([Emit (VoiceConnectionState u st)] @ snd (removePeer u s))
      (fst (removePeer u s))"
    by (rule move_before) (rule move_removePeer, simp_all)
  then show ?thesis
    by (simp add: onConnectionStateChange_def split_def Let_def move_nothing)
qed

lemma move_resume:
  "registry_move s (snd (snd (resume env k s))) (fst (snd (resume env k s)))"
proof (cases k)
  case AwaitGetUserMedia
  then show ?thesis
    by (intro move_keep)
      (simp_all add: Let_def managers_created_append managers_closed_append
        quiet_broadcastVoiceState split: sum.splits)
next
  case (AwaitCreateOffer u m)
  then show ?thesis
    by (simp add: split_def move_createPeerConnection_resume)
next
  case (AwaitHandleOffer u m)
  then show ?thesis
    by (simp add: split_def move_removePeer move_nothing split: sum.splits)
next
  case (AwaitCreateAnswer u m)
  then show ?thesis
    by (simp add: split_def move_removePeer move_nothing quiet_sendSignaling
        split: sum.splits)
next
  case (AwaitHandleAnswer u m)
  then show ?thesis
    by (simp add: split_def move_removePeer move_nothing split: sum.splits)
next
  case (AwaitAddIceCandidate u m)
  then show ?thesis
    by (simp add: move_nothing)
qed

lemma advance_state: "cfg_state (advance c w r) = fst (snd r)"
  by (cases r) (simp add: advance_def)

lemma advance_trace: "cfg_trace (advance c w r) = cfg_trace c @ snd (snd r)"
  by (cases r) (simp add: advance_def)

lemma move_step:
  "\<exists>es. cfg_trace (step env a c) = cfg_trace c @ es \<and>
        registry_move (cfg_state c) es (cfg_state (step env a c))"
proof (cases a)
  case (JoinVoiceChat u r)
  then show ?thesis
    by (simp add: advance_state advance_trace move_joinVoiceChat_start)
next
  case LeaveVoiceChat
  then show ?thesis
    by (simp add: advance_state advance_trace split_def move_leaveVoiceChat)
next
  case ToggleMute
  then show ?thesis
    by (simp add: advance_state advance_trace split_def move_toggleMute)
next
  case (OnMessage data)
  then show ?thesis
    by (simp add: advance_state advance_trace move_onMessage)
next
  case (OnIceCandidate u cand)
  then show ?thesis
    by (simp add: advance_state advance_trace onIceCandidate_def move_nothing
        quiet_sendSignaling)
next
  case (OnRemoteStream u st)
  then show ?thesis
    by (simp add: advance_state advance_trace split_def move_onRemoteStream)
next
  case (OnConnectionStateChange u st)
  then show ?thesis
    by (simp add: advance_state advance_trace split_def move_onConnectionStateChange)
next
  case Destroy
  then show ?thesis
    by (simp add: advance_state advance_trace split_def destroy_def move_leaveVoiceChat)
next
  case (Settle i)
  then show ?thesis
    by (simp add: advance_state advance_trace move_resume move_nothing)
qed

lemma sound_move:
  assumes "registry_sound s tr" and "registry_move s es s'"
  shows "registry_sound s' (tr @ es)"
  using assms(2) assms(1)
proof (induction rule: registry_move.induct)
  case (move_keep s' s es)
  then show ?case
    by (simp add: registry_sound_def live_managers_def managers_created_append
        managers_closed_append)
next
  case (move_add s u s' es)
  let ?n = "nextMgr s"
  have fresh: "?n \<notin> set (managers_created tr)" "?n \<notin> set (managers_closed tr)"
    using move_add.prems by (auto simp add: registry_sound_def list_all_iff)
  have vals: "set (map snd (peers s)) = set (managers_created tr) - set (managers_closed tr)"
    using move_add.prems by (simp add: registry_sound_def live_managers_def)
  have nv: "?n \<notin> set (map snd (peers s))"
    using vals fresh by simp
  have nk: "u \<notin> set (map fst (peers s))"
    using move_add.hyps(1) by (simp add: map_of_eq_None_iff)
  have p: "peers s' = peers s @ [(u, ?n)]"
    using move_add.hyps by (simp add: update_absent)
  have d: "distinct (map fst (peers s'))" "distinct (map snd (peers s'))"
    using move_add.prems nk nv by (simp_all add: p registry_sound_def)
  have sv: "set (map snd (peers s')) = insert ?n (set (map snd (peers s)))"
    by (simp add: p)
  have "set (map snd (peers s')) =
      insert ?n (set (managers_created tr) - set (managers_closed tr))"
    unfolding sv vals ..
  also have "\<dots> = live_managers (tr @ es)"
    using fresh move_add.hyps(4,5)
    by (auto simp add: live_managers_def managers_created_append managers_closed_append)
  finally have l: "set (map snd (peers s')) = live_managers (tr @ es)" .
  have b: "list_all (\<lambda>m. m < nextMgr s') (managers_created (tr @ es))"
      "list_all (\<lambda>m. m < nextMgr s') (managers_closed (tr @ es))"
    using move_add.prems move_add.hyps(3,4,5)
    by (auto simp add: registry_sound_def list_all_iff managers_created_append
        managers_closed_append less_Suc_eq)
  show ?case
    unfolding registry_sound_def using d l b by blast
next
  case (move_remove s' u s es)
  show ?case
  proof (cases "map_of (peers s) u")
    case None
    then show ?thesis
      using move_remove
      by (simp add: registry_sound_def live_managers_def managers_created_append
          managers_closed_append delete_absent)
  next
    case (Some m)
    have d: "distinct (map fst (peers s))" "distinct (map snd (peers s))"
      and vals: "set (map snd (peers s)) = set (managers_created tr) - set (managers_closed tr)"
      using move_remove.prems by (simp_all add: registry_sound_def live_managers_def)
    have m: "m \<in> set (map snd (peers s))"
      using Some by (auto dest: map_of_SomeD intro: rev_image_eqI)
    then have mb: "m < nextMgr s"
      using vals move_remove.prems by (auto simp add: registry_sound_def list_all_iff)
    have "distinct (map fst (peers s'))" "distinct (map snd (peers s'))"
      using d move_remove.hyps by (simp_all add: AList.distinct_delete distinct_values_delete)
    moreover have "set (map snd (peers s')) = live_managers (tr @ es)"
      using values_delete [OF d Some] vals move_remove.hyps Some
      by (auto simp add: live_managers_def managers_created_append managers_closed_append)
    moreover have "list_all (\<lambda>m. m < nextMgr s') (managers_created (tr @ es))"
        "list_all (\<lambda>m. m < nextMgr s') (managers_closed (tr @ es))"
      using move_remove.prems move_remove.hyps Some mb
      by (auto simp add: registry_sound_def list_all_iff managers_created_append
          managers_closed_append)
    ultimately show ?thesis
      by (simp add: registry_sound_def)
  qed
next
  case (move_clear s' s es)
  have vals: "set (map snd (peers s)) = set (managers_created tr) - set (managers_closed tr)"
    using move_clear.prems by (simp add: registry_sound_def live_managers_def)
  have "set (map snd (peers s')) = live_managers (tr @ es)"
    using vals move_clear.hyps
    by (auto simp add: live_managers_def managers_created_append managers_closed_append)
  moreover have "list_all (\<lambda>m. m < nextMgr s') (managers_created (tr @ es))"
      "list_all (\<lambda>m. m < nextMgr s') (managers_closed (tr @ es))"
    using move_clear.prems move_clear.hyps vals
    by (auto simp add: registry_sound_def list_all_iff managers_created_append
        managers_closed_append)
  ultimately show ?case
    using move_clear.hyps by (simp add: registry_sound_def)
qed

lemma move_keeps_or_closes:
  assumes "registry_move s es s'" and "map_of (peers s) u = Some m"
  shows "map_of (peers s') u = Some m \<or>
         map_of (peers s') u = None \<and> m \<in> set (managers_closed es)"
  using assms
proof (induction rule: registry_move.induct)
  case (move_keep s' s es)
  then show ?case by simp
next
  case (move_add s v s' es)
  then have "v \<noteq> u" by auto
  then show ?case
    using move_add by (simp add: AList.update_conv')
next
  case (move_remove s' v s es)
  then show ?case
    by (cases "v = u") (simp_all add: AList.delete_conv')
next
  case (move_clear s' s es)
  then show ?case
    by (auto dest: map_of_SomeD intro: rev_image_eqI)
qed

lemma reachable_sound: "reachable c \<Longrightarrow> registry_sound (cfg_state c) (cfg_trace c)"
proof (induction rule: reachable.induct)
  case reachable_initial
  show ?case
    by (simp add: initial_def constructor_def registry_sound_def live_managers_def)
next
  case (reachable_step c env a)
  obtain es where "cfg_trace (step env a c) = cfg_trace c @ es"
    and "registry_move (cfg_state c) es (cfg_state (step env a c))"
    using move_step by blast
  then show ?case
    using reachable_step.IH sound_move by simp
qed

lemma handleVoiceState_existing_session:
  assumes "map_of (peers s) (m_username data) = Some m" and "m_inVoice data"
  shows "handleVoiceState env data s =
           (s, if m_username data = username s then []
               else Emit (VoiceJoined (m_username data) False) #
                 (case m_muted data of
                    None \<Rightarrow> []
                  | Some muted \<Rightarrow> [Emit (VoiceMuted (m_username data) muted)]))"
  using assms
  by (simp add: handleVoiceState_def createPeerConnection_start_def has_def Let_def
      split: option.splits)

lemma handleSignaling_offer_existing_session:
  assumes "map_of (peers s) u = Some m" and "m_from data = u" and "u \<noteq> username s"
    and "m_type data = ''webrtc-offer''"
  shows "handleSignaling env data s =
     (case mgr_handleOffer env of
        Inl err \<Rightarrow>
          (Inr (),
           s\<lparr>peers := AList.delete u (peers s),
              remoteStreams := AList.delete u (remoteStreams s)\<rparr>,
           [MgrHandleOffer m (m_offer data), MgrClose m] @
             (case map_of (remoteStreams s) u of
                None \<Rightarrow> []
              | Some st \<Rightarrow> [Emit (VoiceStreamRemoved u)]))
      | Inr ok \<Rightarrow>
          (case mgr_createAnswer env of
             Inl err \<Rightarrow>
               (Inr (),
                s\<lparr>peers := AList.delete u (peers s),
                   remoteStreams := AList.delete u (remoteStreams s)\<rparr>,
                [MgrHandleOffer m (m_offer data), MgrCreateAnswer m, MgrClose m] @
                  (case map_of (remoteStreams s) u of
                     None \<Rightarrow> []
                   | Some st \<Rightarrow> [Emit (VoiceStreamRemoved u)]))
           | Inr answer \<Rightarrow>
               (Inr (), s,
                [MgrHandleOffer m (m_offer data), MgrCreateAnswer m] @
                  (if isConnected env
                   then [WsSend \<lparr>m_type = ''webrtc-answer'', m_username = Undefined,
                           m_roomname = roomname s, m_inVoice = False, m_muted = None,
                           m_from = username s, m_to = u, m_offer = None,
                           m_answer = Some answer, m_candidate = None\<rparr>]
                   else []))))"
proof -
  have rm: "removePeer u s =
      (s\<lparr>peers := AList.delete u (peers s),
          remoteStreams := AList.delete u (remoteStreams s)\<rparr>,
       MgrClose m #
         (case map_of (remoteStreams s) u of
            None \<Rightarrow> []
          | Some st \<Rightarrow> [Emit (VoiceStreamRemoved u)]))"
    using assms(1) removePeer_state [of u s] removePeer_effects [of u s]
    by (cases "removePeer u s") simp
  show ?thesis
    using assms
    by (simp add: handleSignaling_def handleOffer_def rm sendSignaling_def emptyMessage_def
        split: sum.splits)
qed

lemma alice_with_bob_run_state: "cfg_state alice_with_bob_run = alice_with_bob"
  by (simp add: alice_with_bob_run_def initial_def advance_def joinVoiceChat_start_def
      onMessage_def handleVoiceState_start_def createPeerConnection_start_def
      createPeerConnection_resume_def newPeer_def has_def voiceStateMessage_def
      emptyMessage_def bob_joined_eq alice_with_bob_eq constructor_def env_ok_def
      broadcastVoiceState_def sendSignaling_def Let_def)

lemma alice_with_bob_run_trace:
  "cfg_pending alice_with_bob_run = [] \<and>
   managers_created (cfg_trace alice_with_bob_run) = [0] \<and>
   managers_closed (cfg_trace alice_with_bob_run) = []"
  by (simp add: alice_with_bob_run_def initial_def advance_def joinVoiceChat_start_def
      onMessage_def handleVoiceState_start_def createPeerConnection_start_def
      createPeerConnection_resume_def newPeer_def has_def voiceStateMessage_def
      emptyMessage_def bob_joined_eq constructor_def env_ok_def
      broadcastVoiceState_def sendSignaling_def Let_def)

lemma alice_with_bob_run_reachable: "reachable alice_with_bob_run"
  unfolding alice_with_bob_run_def by (intro reachable_step reachable_initial)

lemma alice_interleaved_run_eq:
  "cfg_state alice_interleaved_run = alice_joined\<lparr>nextMgr := Suc 0\<rparr> \<and>
   cfg_pending alice_interleaved_run = [] \<and>
   managers_created (cfg_trace alice_interleaved_run) = [0] \<and>
   managers_closed (cfg_trace alice_interleaved_run) = [0]"
  by (simp add: alice_interleaved_run_def initial_def advance_def joinVoiceChat_start_def
      onMessage_def handleSignaling_start_def handleOffer_start_def
      handleVoiceState_start_def createPeerConnection_start_def removePeer_def newPeer_def
      has_def voiceStateMessage_def signalingMessage_def emptyMessage_def bob_joined_eq
      alice_joined_eq constructor_def env_ok_def env_rejecting_def broadcastVoiceState_def
      Let_def)

text \<open>
  Claim C2, as the code has it. In every configuration that the coordinator can reach,
  with calls and messages coming between an \<open>await\<close> and its continuation, the sessions
  that exist (manager constructed and not closed) are exactly the registered ones, no
  username is registered twice and no manager under two usernames: at most one session
  exists for a remote username. No step puts another session in the place of a registered
  one: after the step the same manager is registered for the username, or none is and
  the manager was closed in that step. With a session registered for \<open>u\<close>, a voice-state
  message of \<open>u\<close> with \<open>inVoice\<close> true changes nothing and constructs nothing (it emits
  \<open>voice:joined\<close> and \<open>voice:muted\<close> only), and an offer from \<open>u\<close> constructs nothing
  either: it is given to the registered manager, the state stays as it was when
  \<open>handleOffer\<close> and \<open>createAnswer\<close> both succeed, and when one of them fails the
  registered manager is closed and its session and stream are deleted.
\<close>

theorem one_session_per_remote:
  assumes "reachable c"
  shows "distinct (map fst (peers (cfg_state c))) \<and>
         distinct (map snd (peers (cfg_state c))) \<and>
         set (map snd (peers (cfg_state c))) = live_managers (cfg_trace c) \<and>
         (map_of (peers (cfg_state c)) u = Some m \<longrightarrow>
            (map_of (peers (cfg_state (step env a c))) u = Some m \<or>
             map_of (peers (cfg_state (step env a c))) u = None \<and>
             MgrClose m \<in> set (cfg_trace (step env a c)) \<and>
             MgrClose m \<notin> set (cfg_trace c)) \<and>
            (m_username vs = u \<and> m_inVoice vs \<longrightarrow>
               handleVoiceState env vs (cfg_state c) =
                 (cfg_state c,
                  if u = username (cfg_state c) then []
                  else Emit (VoiceJoined u False) #
                    (case m_muted vs of
                       None \<Rightarrow> []
                     | Some muted \<Rightarrow> [Emit (VoiceMuted u muted)]))) \<and>
            (m_from data = u \<and> u \<noteq> username (cfg_state c) \<and>
             m_type data = ''webrtc-offer'' \<longrightarrow>
               handleSignaling env data (cfg_state c) =
                 (case mgr_handleOffer env of
                    Inl err \<Rightarrow>
                      (Inr (),
                       (cfg_state c)\<lparr>peers := AList.delete u (peers (cfg_state c)),
                         remoteStreams := AList.delete u (remoteStreams (cfg_state c))\<rparr>,
                       [MgrHandleOffer m (m_offer data), MgrClose m] @
                         (case map_of (remoteStreams (cfg_state c)) u of
                            None \<Rightarrow> []
                          | Some st \<Rightarrow> [Emit (VoiceStreamRemoved u)]))
                  | Inr ok \<Rightarrow>
                      (case mgr_createAnswer env of
                         Inl err \<Rightarrow>
                           (Inr (),
                            (cfg_state c)\<lparr>peers := AList.delete u (peers (cfg_state c)),
                              remoteStreams :=
                                AList.delete u (remoteStreams (cfg_state c))\<rparr>,
                            [MgrHandleOffer m (m_offer data), MgrCreateAnswer m,
                             MgrClose m] @
                              (case map_of (remoteStreams (cfg_state c)) u of
                                 None \<Rightarrow> []
                               | Some st \<Rightarrow> [Emit (VoiceStreamRemoved u)]))
                       | Inr answer \<Rightarrow>
                           (Inr (), cfg_state c,
                            [MgrHandleOffer m (m_offer data), MgrCreateAnswer m] @
                              (if isConnected env
                               then [WsSend \<lparr>m_type = ''webrtc-answer'',
                                       m_username = Undefined,
                                       m_roomname = roomname (cfg_state c),
                                       m_inVoice = False, m_muted = None,
                                       m_from = username (cfg_state c), m_to = u,
                                       m_offer = None, m_answer = Some answer,
                                       m_candidate = None\<rparr>]
                               else []))))))"
proof -
  let ?s = "cfg_state c"
  have sound: "registry_sound ?s (cfg_trace c)"
    using assms by (rule reachable_sound)
  then have inv: "distinct (map fst (peers ?s))" "distinct (map snd (peers ?s))"
      "set (map snd (peers ?s)) = live_managers (cfg_trace c)"
    by (simp_all add: registry_sound_def)
  have stay: "map_of (peers (cfg_state (step env a c))) u = Some m \<or>
      map_of (peers (cfg_state (step env a c))) u = None \<and>
      MgrClose m \<in> set (cfg_trace (step env a c)) \<and> MgrClose m \<notin> set (cfg_trace c)"
    if reg: "map_of (peers ?s) u = Some m"
  proof -
    obtain es where tr: "cfg_trace (step env a c) = cfg_trace c @ es"
      and mv: "registry_move ?s es (cfg_state (step env a c))"
      using move_step by blast
    have "m \<in> set (map snd (peers ?s))"
      using reg by (auto dest: map_of_SomeD intro: rev_image_eqI)
    then have "m \<notin> set (managers_closed (cfg_trace c))"
      using inv(3) by (simp add: live_managers_def)
    then have open_before: "MgrClose m \<notin> set (cfg_trace c)"
      by (simp add: managers_closed_iff)
    show ?thesis
      using move_keeps_or_closes [OF mv reg] open_before
      by (auto simp add: tr managers_closed_iff)
  qed
  have vstate: "handleVoiceState env vs ?s =
      (?s, if u = username ?s then []
           else Emit (VoiceJoined u False) #
             (case m_muted vs of None \<Rightarrow> [] | Some muted \<Rightarrow> [Emit (VoiceMuted u muted)]))"
    if "map_of (peers ?s) u = Some m" and "m_username vs = u \<and> m_inVoice vs"
    using that handleVoiceState_existing_session [of ?s vs m env] by auto
  show ?thesis
  proof (intro conjI impI)
    show "distinct (map fst (peers ?s))" "distinct (map snd (peers ?s))"
      "set (map snd (peers ?s)) = live_managers (cfg_trace c)"
      by (rule inv)+
  next
    assume "map_of (peers ?s) u = Some m"
    then show "map_of (peers (cfg_state (step env a c))) u = Some m \<or>
      map_of (peers (cfg_state (step env a c))) u = None \<and>
      MgrClose m \<in> set (cfg_trace (step env a c)) \<and> MgrClose m \<notin> set (cfg_trace c)"
      by (rule stay)
  next
    assume "map_of (peers ?s) u = Some m" and "m_username vs = u \<and> m_inVoice vs"
    then show "handleVoiceState env vs ?s =
      (?s, if u = username ?s then []
           else Emit (VoiceJoined u False) #
             (case m_muted vs of None \<Rightarrow> [] | Some muted \<Rightarrow> [Emit (VoiceMuted u muted)]))"
      by (rule vstate)
  next
    assume "map_of (peers ?s) u = Some m"
      and "m_from data = u \<and> u \<noteq> username ?s \<and> m_type data = ''webrtc-offer''"
    then show "handleSignaling env data ?s =
        (case mgr_handleOffer env of
           Inl err \<Rightarrow>
             (Inr (),
              ?s\<lparr>peers := AList.delete u (peers ?s),
                remoteStreams := AList.delete u (remoteStreams ?s)\<rparr>,
              [MgrHandleOffer m (m_offer data), MgrClose m] @
                (case map_of (remoteStreams ?s) u of
                   None \<Rightarrow> []
                 | Some st \<Rightarrow> [Emit (VoiceStreamRemoved u)]))
         | Inr ok \<Rightarrow>
             (case mgr_createAnswer env of
                Inl err \<Rightarrow>
                  (Inr (),
                   ?s\<lparr>peers := AList.delete u (peers ?s),
                     remoteStreams := AList.delete u (remoteStreams ?s)\<rparr>,
                   [MgrHandleOffer m (m_offer data), MgrCreateAnswer m, MgrClose m] @
                     (case map_of (remoteStreams ?s) u of
                        None \<Rightarrow> []
                      | Some st \<Rightarrow> [Emit (VoiceStreamRemoved u)]))
              | Inr answer \<Rightarrow>
                  (Inr (), ?s,
                   [MgrHandleOffer m (m_offer data), MgrCreateAnswer m] @
                     (if isConnected env
                      then [WsSend \<lparr>m_type = ''webrtc-answer'', m_username = Undefined,
                              m_roomname = roomname ?s, m_inVoice = False, m_muted = None,
                              m_from = username ?s, m_to = u, m_offer = None,
                              m_answer = Some answer, m_candidate = None\<rparr>]
                      else []))))"
      using handleSignaling_offer_existing_session [of ?s u m data env] by blast
  qed
qed

theorem one_session_per_remote_witness:
  "reachable alice_with_bob_run \<and>
   cfg_state alice_with_bob_run = alice_with_bob \<and>
   map_of (peers alice_with_bob) (Str ''bob'') = Some 0 \<and>
   distinct (map fst (peers alice_with_bob)) \<and>
   set (map snd (peers alice_with_bob)) = live_managers (cfg_trace alice_with_bob_run) \<and>
   live_managers (cfg_trace alice_with_bob_run) = {0} \<and>
   (map_of (peers (cfg_state (step env_ok
        (OnMessage (signalingMessage ''webrtc-offer'' ''bob'' ''alice''))
        alice_with_bob_run))) (Str ''bob'') = Some 0 \<or>
    map_of (peers (cfg_state (step env_ok
        (OnMessage (signalingMessage ''webrtc-offer'' ''bob'' ''alice''))
        alice_with_bob_run))) (Str ''bob'') = None \<and>
    MgrClose 0 \<in> set (cfg_trace (step env_ok
        (OnMessage (signalingMessage ''webrtc-offer'' ''bob'' ''alice''))
        alice_with_bob_run)) \<and>
    MgrClose 0 \<notin> set (cfg_trace alice_with_bob_run)) \<and>
   handleVoiceState env_ok (voiceStateMessage bob_joined) alice_with_bob =
     (alice_with_bob,
      [Emit (VoiceJoined (Str ''bob'') False), Emit (VoiceMuted (Str ''bob'') False)]) \<and>
   handleSignaling env_ok (signalingMessage ''webrtc-offer'' ''bob'' ''alice'')
       alice_with_bob =
     (Inr (), alice_with_bob,
      [MgrHandleOffer 0 (Some ''offer-sdp''), MgrCreateAnswer 0,
       WsSend \<lparr>m_type = ''webrtc-answer'', m_username = Undefined,
         m_roomname = Str ''lobby'', m_inVoice = False, m_muted = None,
         m_from = Str ''alice'', m_to = Str ''bob'', m_offer = None,
         m_answer = Some ''answer-sdp'', m_candidate = None\<rparr>]) \<and>
   handleSignaling env_rejecting (signalingMessage ''webrtc-offer'' ''bob'' ''alice'')
       alice_with_bob =
     (Inr (), alice_with_bob\<lparr>peers := [], remoteStreams := []\<rparr>,
      [MgrHandleOffer 0 (Some ''offer-sdp''), MgrClose 0])"
proof -
  let ?D = "signalingMessage ''webrtc-offer'' ''bob'' ''alice''"
  let ?V = "voiceStateMessage bob_joined"
  let ?b = "Str ''bob''"
  note r = alice_with_bob_run_reachable
  note st = alice_with_bob_run_state
  have h1: "map_of (peers alice_with_bob) ?b = Some 0"
    by (simp add: alice_with_bob_eq)
  have h2: "m_username ?V = ?b \<and> m_inVoice ?V"
    by (simp add: voiceStateMessage_def bob_joined_eq)
  have h3: "m_from ?D = ?b \<and> ?b \<noteq> username alice_with_bob \<and> m_type ?D = ''webrtc-offer''"
    by (simp add: signalingMessage_def emptyMessage_def alice_with_bob_eq)
  have lv: "live_managers (cfg_trace alice_with_bob_run) = {0}"
    by (simp add: live_managers_def alice_with_bob_run_trace)
  note t1 = one_session_per_remote [OF r, of ?b 0 env_ok "OnMessage ?D" ?V ?D, unfolded st]
  note t2 = one_session_per_remote [OF r, of ?b 0 env_rejecting "OnMessage ?D" ?V ?D,
      unfolded st]
  have a: "distinct (map fst (peers alice_with_bob))"
    and b: "set (map snd (peers alice_with_bob)) = live_managers (cfg_trace alice_with_bob_run)"
    using t1 by blast+
  have c: "map_of (peers (cfg_state (step env_ok (OnMessage ?D) alice_with_bob_run))) ?b =
        Some 0 \<or>
      map_of (peers (cfg_state (step env_ok (OnMessage ?D) alice_with_bob_run))) ?b = None \<and>
      MgrClose 0 \<in> set (cfg_trace (step env_ok (OnMessage ?D) alice_with_bob_run)) \<and>
      MgrClose 0 \<notin> set (cfg_trace alice_with_bob_run)"
    using t1 h1 by blast
  have "handleVoiceState env_ok ?V alice_with_bob =
      (alice_with_bob,
       if ?b = username alice_with_bob then []
       else Emit (VoiceJoined ?b False) #
         (case m_muted ?V of None \<Rightarrow> [] | Some muted \<Rightarrow> [Emit (VoiceMuted ?b muted)]))"
    using t1 h1 h2 by blast
  then have d: "handleVoiceState env_ok ?V alice_with_bob =
      (alice_with_bob, [Emit (VoiceJoined ?b False), Emit (VoiceMuted ?b False)])"
    by (simp add: voiceStateMessage_def bob_joined_eq alice_with_bob_eq)
  have e: "handleSignaling env_ok ?D alice_with_bob =
      (Inr (), alice_with_bob,
       [MgrHandleOffer 0 (Some ''offer-sdp''), MgrCreateAnswer 0,
        WsSend \<lparr>m_type = ''webrtc-answer'', m_username = Undefined,
          m_roomname = Str ''lobby'', m_inVoice = False, m_muted = None,
          m_from = Str ''alice'', m_to = Str ''bob'', m_offer = None,
          m_answer = Some ''answer-sdp'', m_candidate = None\<rparr>])"
    using t1 [THEN conjunct2, THEN conjunct2, THEN conjunct2, THEN mp, OF h1,
        THEN conjunct2, THEN conjunct2, THEN mp, OF h3]
    by (simp add: env_ok_def signalingMessage_def alice_with_bob_eq)
  have f: "handleSignaling env_rejecting ?D alice_with_bob =
      (Inr (), alice_with_bob\<lparr>peers := [], remoteStreams := []\<rparr>,
       [MgrHandleOffer 0 (Some ''offer-sdp''), MgrClose 0])"
    using t2 [THEN conjunct2, THEN conjunct2, THEN conjunct2, THEN mp, OF h1,
        THEN conjunct2, THEN conjunct2, THEN mp, OF h3]
    by (simp add: env_rejecting_def signalingMessage_def alice_with_bob_eq)
  show ?thesis
    using r st h1 a b lv c d e f by blast
qed

text \<open>The claim as the specification states it (the registered session remains
  unchanged) does not hold: \<open>alice\<close> holds a session for \<open>bob\<close>, an offer of \<open>bob\<close> arrives
  that the session refuses, and after it no session is registered for \<open>bob\<close>: the manager
  was closed. This is so when the handler runs alone and when it runs in its pieces.\<close>

theorem refused_offer_removes_registered_session:
  "reachable alice_with_bob_run \<and>
   cfg_state alice_with_bob_run = alice_with_bob \<and>
   map_of (peers alice_with_bob) (Str ''bob'') = Some 0 \<and>
   mgr_handleOffer env_rejecting = Inl (Error ''InvalidStateError'') \<and>
   map_of (peers (fst (snd (handleSignaling env_rejecting
     (signalingMessage ''webrtc-offer'' ''bob'' ''alice'') alice_with_bob))))
     (Str ''bob'') = None \<and>
   snd (snd (handleSignaling env_rejecting
     (signalingMessage ''webrtc-offer'' ''bob'' ''alice'') alice_with_bob)) =
     [MgrHandleOffer 0 (Some ''offer-sdp''), MgrClose 0] \<and>
   peers (cfg_state (step env_rejecting (Settle 0)
     (step env_ok (OnMessage (signalingMessage ''webrtc-offer'' ''bob'' ''alice''))
       alice_with_bob_run))) = []"
proof -
  have run: "peers (cfg_state (step env_rejecting (Settle 0)
      (step env_ok (OnMessage (signalingMessage ''webrtc-offer'' ''bob'' ''alice''))
        alice_with_bob_run))) = []"
    using alice_with_bob_run_trace
    by (simp add: advance_def alice_with_bob_run_state alice_with_bob_eq onMessage_def
        signalingMessage_def emptyMessage_def handleSignaling_start_def
        handleOffer_start_def env_rejecting_def removePeer_def Let_def)
  show ?thesis
    using alice_with_bob_run_reachable alice_with_bob_run_state run
    by (simp add: alice_with_bob_eq env_rejecting_def signalingMessage_def emptyMessage_def
        handleSignaling_def handleOffer_def removePeer_def Let_def)
qed

subsection \<open>What a failure of one peer does, exactly\<close>

lemma removePeer_registered:
  assumes "map_of (peers s) u = Some m"
  shows "removePeer u s =
      (s\<lparr>peers := AList.delete u (peers s),
          remoteStreams := AList.delete u (remoteStreams s)\<rparr>,
       MgrClose m #
         (case map_of (remoteStreams s) u of
            None \<Rightarrow> []
          | Some st \<Rightarrow> [Emit (VoiceStreamRemoved u)]))"
  using assms removePeer_state [of u s] removePeer_effects [of u s]
  by (cases "removePeer u s") simp

lemma newPeer_exact:
  assumes "map_of (peers s) u = None"
  shows "newPeer u s =
      (nextMgr s, s\<lparr>peers := peers s @ [(u, nextMgr s)], nextMgr := Suc (nextMgr s)\<rparr>,
       NewManager (nextMgr s) #
         (case localStream s of
            None \<Rightarrow> []
          | Some st \<Rightarrow> [MgrAddLocalStream (nextMgr s) st]))"
  using assms by (simp add: newPeer_def Let_def update_absent split: option.splits)

lemma removePeer_after_newPeer:
  assumes "map_of (peers s) u = None"
  shows "removePeer u (s\<lparr>peers := peers s @ [(u, nextMgr s)], nextMgr := Suc (nextMgr s)\<rparr>) =
      (s\<lparr>remoteStreams := AList.delete u (remoteStreams s), nextMgr := Suc (nextMgr s)\<rparr>,
       MgrClose (nextMgr s) #
         (case map_of (remoteStreams s) u of
            None \<Rightarrow> []
          | Some st \<Rightarrow> [Emit (VoiceStreamRemoved u)]))"
proof -
  let ?s1 = "s\<lparr>peers := peers s @ [(u, nextMgr s)], nextMgr := Suc (nextMgr s)\<rparr>"
  have reg: "map_of (peers ?s1) u = Some (nextMgr s)"
    using assms by (simp add: map_add_def)
  have del: "AList.delete u (peers s @ [(u, nextMgr s)]) = peers s"
    using assms delete_update_absent [of "peers s" u "nextMgr s"]
    by (simp add: update_absent)
  from removePeer_registered [OF reg] show ?thesis
    by (simp add: del)
qed

lemma handleSignaling_offer_no_session:
  assumes "map_of (peers s) u = None" and "m_from data = u" and "u \<noteq> username s"
    and "m_type data = ''webrtc-offer''"
  shows "handleSignaling env data s =
     (case mgr_handleOffer env of
        Inl err \<Rightarrow>
          (Inr (),
           s\<lparr>remoteStreams := AList.delete u (remoteStreams s),
              nextMgr := Suc (nextMgr s)\<rparr>,
           NewManager (nextMgr s) #
           (case localStream s of
              None \<Rightarrow> []
            | Some st \<Rightarrow> [MgrAddLocalStream (nextMgr s) st]) @
           [MgrHandleOffer (nextMgr s) (m_offer data), MgrClose (nextMgr s)] @
           (case map_of (remoteStreams s) u of
              None \<Rightarrow> []
            | Some st \<Rightarrow> [Emit (VoiceStreamRemoved u)]))
      | Inr ok \<Rightarrow>
          (case mgr_createAnswer env of
             Inl err \<Rightarrow>
               (Inr (),
                s\<lparr>remoteStreams := AList.delete u (remoteStreams s),
                   nextMgr := Suc (nextMgr s)\<rparr>,
                NewManager (nextMgr s) #
                (case localStream s of
              None \<Rightarrow> []
            | Some st \<Rightarrow> [MgrAddLocalStream (nextMgr s) st]) @
                [MgrHandleOffer (nextMgr s) (m_offer data), MgrCreateAnswer (nextMgr s),
                 MgrClose (nextMgr s)] @
                (case map_of (remoteStreams s) u of
              None \<Rightarrow> []
            | Some st \<Rightarrow> [Emit (VoiceStreamRemoved u)]))
           | Inr answer \<Rightarrow>
               (Inr (),
                s\<lparr>peers := peers s @ [(u, nextMgr s)], nextMgr := Suc (nextMgr s)\<rparr>,
                NewManager (nextMgr s) #
                (case localStream s of
              None \<Rightarrow> []
            | Some st \<Rightarrow> [MgrAddLocalStream (nextMgr s) st]) @
                [MgrHandleOffer (nextMgr s) (m_offer data), MgrCreateAnswer (nextMgr s)] @
                (if isConnected env
                 then [WsSend \<lparr>m_type = ''webrtc-answer'', m_username = Undefined,
                   m_roomname = roomname s, m_inVoice = False, m_muted = None,
                   m_from = username s, m_to = u, m_offer = None,
                   m_answer = Some answer, m_candidate = None\<rparr>]
                 else []))))"
  using assms removePeer_after_newPeer [OF assms(1)]
  by (simp add: handleSignaling_def handleOffer_def newPeer_exact sendSignaling_def
      emptyMessage_def split: sum.splits)

lemma handleSignaling_answer_existing_session:
  assumes "map_of (peers s) u = Some m" and "m_from data = u" and "u \<noteq> username s"
    and "m_type data = ''webrtc-answer''"
  shows "handleSignaling env data s =
     (case mgr_handleAnswer env of
        Inl err \<Rightarrow>
          (Inr (),
           s\<lparr>peers := AList.delete u (peers s),
              remoteStreams := AList.delete u (remoteStreams s)\<rparr>,
           [MgrHandleAnswer m (m_answer data), MgrClose m] @
           (case map_of (remoteStreams s) u of
              None \<Rightarrow> []
            | Some st \<Rightarrow> [Emit (VoiceStreamRemoved u)]))
      | Inr ok \<Rightarrow> (Inr (), s, [MgrHandleAnswer m (m_answer data)]))"
  using assms
  by (simp add: handleSignaling_def handleAnswer_def removePeer_registered
      split: sum.splits)

lemma createPeerConnection_no_session:
  assumes "map_of (peers s) u = None"
  shows "createPeerConnection env u s =
     (case mgr_createOffer env of
        Inl err \<Rightarrow>
          (Inr (),
           s\<lparr>remoteStreams := AList.delete u (remoteStreams s),
              nextMgr := Suc (nextMgr s)\<rparr>,
           NewManager (nextMgr s) #
           (case localStream s of
              None \<Rightarrow> []
            | Some st \<Rightarrow> [MgrAddLocalStream (nextMgr s) st]) @
           [MgrCreateOffer (nextMgr s), MgrClose (nextMgr s)] @
           (case map_of (remoteStreams s) u of
              None \<Rightarrow> []
            | Some st \<Rightarrow> [Emit (VoiceStreamRemoved u)]))
      | Inr offer \<Rightarrow>
          (Inr (),
           s\<lparr>peers := peers s @ [(u, nextMgr s)], nextMgr := Suc (nextMgr s)\<rparr>,
           NewManager (nextMgr s) #
           (case localStream s of
              None \<Rightarrow> []
            | Some st \<Rightarrow> [MgrAddLocalStream (nextMgr s) st]) @
           [MgrCreateOffer (nextMgr s)] @
           (if isConnected env
            then [WsSend \<lparr>m_type = ''webrtc-offer'', m_username = Undefined,
                   m_roomname = roomname s, m_inVoice = False, m_muted = None,
                   m_from = username s, m_to = u, m_offer = Some offer,
                   m_answer = None, m_candidate = None\<rparr>]
            else [])))"
  using assms removePeer_after_newPeer [OF assms(1)]
  by (simp add: createPeerConnection_def createPeerConnection_start_def
      createPeerConnection_resume_def has_def newPeer_exact sendSignaling_def
      emptyMessage_def split: sum.splits)

text \<open>
  Claim C6, as the code has it. While a signaling message from the remote \<open>u\<close> is handled,
  or a session for \<open>u\<close> is created, a failure of the manager never leaves the handler (the
  promise resolves) and never touches the session or the stream of another peer. A failing
  \<open>handleOffer\<close> or \<open>createAnswer\<close>, a failing \<open>handleAnswer\<close> and a failing \<open>createOffer\<close>
  call \<open>removePeer\<close> for \<open>u\<close>, and do nothing else: the manager of \<open>u\<close> and no other is
  closed, the session and the stream of \<open>u\<close> and no other are deleted from the two maps,
  and \<open>voice:stream-removed\<close> is emitted for \<open>u\<close> if a stream was registered. A failing
  \<open>addIceCandidate\<close> does not call \<open>removePeer\<close>: the state is as it was, and the session of
  \<open>u\<close> stays registered and open.
\<close>

theorem per_peer_failures_contained:
  "fst (handleSignaling env data s) = Inr () \<and>
   fst (createPeerConnection env u s) = Inr () \<and>
   (\<forall>v. v \<noteq> m_from data \<longrightarrow>
      map_of (peers (fst (snd (handleSignaling env data s)))) v = map_of (peers s) v \<and>
      map_of (remoteStreams (fst (snd (handleSignaling env data s)))) v =
        map_of (remoteStreams s) v) \<and>
   (\<forall>v. v \<noteq> u \<longrightarrow>
      map_of (peers (fst (snd (createPeerConnection env u s)))) v = map_of (peers s) v \<and>
      map_of (remoteStreams (fst (snd (createPeerConnection env u s)))) v =
        map_of (remoteStreams s) v) \<and>
   (m_from data \<noteq> username s \<and> m_type data = ''webrtc-offer'' \<and>
    (mgr_handleOffer env = Inl e \<or> mgr_createAnswer env = Inl e) \<longrightarrow>
      map_of (peers (fst (snd (handleSignaling env data s)))) (m_from data) = None \<and>
      map_of (remoteStreams (fst (snd (handleSignaling env data s)))) (m_from data) = None \<and>
      MgrClose (case map_of (peers s) (m_from data) of None \<Rightarrow> nextMgr s | Some m \<Rightarrow> m)
        \<in> set (snd (snd (handleSignaling env data s)))) \<and>
   (m_from data \<noteq> username s \<and> m_type data = ''webrtc-answer'' \<and>
    map_of (peers s) (m_from data) = Some m \<and> mgr_handleAnswer env = Inl e \<longrightarrow>
      map_of (peers (fst (snd (handleSignaling env data s)))) (m_from data) = None \<and>
      map_of (remoteStreams (fst (snd (handleSignaling env data s)))) (m_from data) = None \<and>
      MgrClose m \<in> set (snd (snd (handleSignaling env data s)))) \<and>
   (map_of (peers s) u = None \<and> mgr_createOffer env = Inl e \<longrightarrow>
      map_of (peers (fst (snd (createPeerConnection env u s)))) u = None \<and>
      map_of (remoteStreams (fst (snd (createPeerConnection env u s)))) u = None \<and>
      MgrClose (nextMgr s) \<in> set (snd (snd (createPeerConnection env u s)))) \<and>
   (m_from data \<noteq> username s \<and> m_type data = ''webrtc-ice-candidate'' \<and>
    map_of (peers s) (m_from data) = Some m \<longrightarrow>
      handleSignaling env data s =
        (Inr (), s, [MgrAddIceCandidate m (m_candidate data)])) \<and>
   (m_from data \<noteq> username s \<and> m_type data = ''webrtc-offer'' \<and>
    map_of (peers s) (m_from data) = Some m \<longrightarrow>
      handleSignaling env data s =
        (case mgr_handleOffer env of
        Inl err \<Rightarrow>
          (Inr (),
           s\<lparr>peers := AList.delete (m_from data) (peers s),
              remoteStreams := AList.delete (m_from data) (remoteStreams s)\<rparr>,
           [MgrHandleOffer m (m_offer data), MgrClose m] @
           (case map_of (remoteStreams s) (m_from data) of
              None \<Rightarrow> []
            | Some st \<Rightarrow> [Emit (VoiceStreamRemoved (m_from data))]))
      | Inr ok \<Rightarrow>
          (case mgr_createAnswer env of
             Inl err \<Rightarrow>
               (Inr (),
                s\<lparr>peers := AList.delete (m_from data) (peers s),
                   remoteStreams := AList.delete (m_from data) (remoteStreams s)\<rparr>,
                [MgrHandleOffer m (m_offer data), MgrCreateAnswer m, MgrClose m] @
                (case map_of (remoteStreams s) (m_from data) of
              None \<Rightarrow> []
            | Some st \<Rightarrow> [Emit (VoiceStreamRemoved (m_from data))]))
           | Inr answer \<Rightarrow>
               (Inr (), s,
                [MgrHandleOffer m (m_offer data), MgrCreateAnswer m] @
                (if isConnected env
                 then [WsSend \<lparr>m_type = ''webrtc-answer'', m_username = Undefined,
                   m_roomname = roomname s, m_inVoice = False, m_muted = None,
                   m_from = username s, m_to = (m_from data), m_offer = None,
                   m_answer = Some answer, m_candidate = None\<rparr>]
                 else []))))) \<and>
   (m_from data \<noteq> username s \<and> m_type data = ''webrtc-offer'' \<and>
    map_of (peers s) (m_from data) = None \<longrightarrow>
      handleSignaling env data s =
        (case mgr_handleOffer env of
        Inl err \<Rightarrow>
          (Inr (),
           s\<lparr>remoteStreams := AList.delete (m_from data) (remoteStreams s),
              nextMgr := Suc (nextMgr s)\<rparr>,
           NewManager (nextMgr s) #
           (case localStream s of
              None \<Rightarrow> []
            | Some st \<Rightarrow> [MgrAddLocalStream (nextMgr s) st]) @
           [MgrHandleOffer (nextMgr s) (m_offer data), MgrClose (nextMgr s)] @
           (case map_of (remoteStreams s) (m_from data) of
              None \<Rightarrow> []
            | Some st \<Rightarrow> [Emit (VoiceStreamRemoved (m_from data))]))
      | Inr ok \<Rightarrow>
          (case mgr_createAnswer env of
             Inl err \<Rightarrow>
               (Inr (),
                s\<lparr>remoteStreams := AList.delete (m_from data) (remoteStreams s),
                   nextMgr := Suc (nextMgr s)\<rparr>,
                NewManager (nextMgr s) #
                (case localStream s of
              None \<Rightarrow> []
            | Some st \<Rightarrow> [MgrAddLocalStream (nextMgr s) st]) @
                [MgrHandleOffer (nextMgr s) (m_offer data), MgrCreateAnswer (nextMgr s),
                 MgrClose (nextMgr s)] @
                (case map_of (remoteStreams s) (m_from data) of
              None \<Rightarrow> []
            | Some st \<Rightarrow> [Emit (VoiceStreamRemoved (m_from data))]))
           | Inr answer \<Rightarrow>
               (Inr (),
                s\<lparr>peers := peers s @ [((m_from data), nextMgr s)], nextMgr := Suc (nextMgr s)\<rparr>,
                NewManager (nextMgr s) #
                (case localStream s of
              None \<Rightarrow> []
            | Some st \<Rightarrow> [MgrAddLocalStream (nextMgr s) st]) @
                [MgrHandleOffer (nextMgr s) (m_offer data), MgrCreateAnswer (nextMgr s)] @
                (if isConnected env
                 then [WsSend \<lparr>m_type = ''webrtc-answer'', m_username = Undefined,
                   m_roomname = roomname s, m_inVoice = False, m_muted = None,
                   m_from = username s, m_to = (m_from data), m_offer = None,
                   m_answer = Some answer, m_candidate = None\<rparr>]
                 else []))))) \<and>
   (m_from data \<noteq> username s \<and> m_type data = ''webrtc-answer'' \<and>
    map_of (peers s) (m_from data) = Some m \<longrightarrow>
      handleSignaling env data s =
        (case mgr_handleAnswer env of
        Inl err \<Rightarrow>
          (Inr (),
           s\<lparr>peers := AList.delete (m_from data) (peers s),
              remoteStreams := AList.delete (m_from data) (remoteStreams s)\<rparr>,
           [MgrHandleAnswer m (m_answer data), MgrClose m] @
           (case map_of (remoteStreams s) (m_from data) of
              None \<Rightarrow> []
            | Some st \<Rightarrow> [Emit (VoiceStreamRemoved (m_from data))]))
      | Inr ok \<Rightarrow> (Inr (), s, [MgrHandleAnswer m (m_answer data)]))) \<and>
   (map_of (peers s) u = None \<longrightarrow>
      createPeerConnection env u s =
        (case mgr_createOffer env of
        Inl err \<Rightarrow>
          (Inr (),
           s\<lparr>remoteStreams := AList.delete u (remoteStreams s),
              nextMgr := Suc (nextMgr s)\<rparr>,
           NewManager (nextMgr s) #
           (case localStream s of
              None \<Rightarrow> []
            | Some st \<Rightarrow> [MgrAddLocalStream (nextMgr s) st]) @
           [MgrCreateOffer (nextMgr s), MgrClose (nextMgr s)] @
           (case map_of (remoteStreams s) u of
              None \<Rightarrow> []
            | Some st \<Rightarrow> [Emit (VoiceStreamRemoved u)]))
      | Inr offer \<Rightarrow>
          (Inr (),
           s\<lparr>peers := peers s @ [(u, nextMgr s)], nextMgr := Suc (nextMgr s)\<rparr>,
           NewManager (nextMgr s) #
           (case localStream s of
              None \<Rightarrow> []
            | Some st \<Rightarrow> [MgrAddLocalStream (nextMgr s) st]) @
           [MgrCreateOffer (nextMgr s)] @
           (if isConnected env
            then [WsSend \<lparr>m_type = ''webrtc-offer'', m_username = Undefined,
                   m_roomname = roomname s, m_inVoice = False, m_muted = None,
                   m_from = username s, m_to = u, m_offer = Some offer,
                   m_answer = None, m_candidate = None\<rparr>]
            else []))))"
proof -
  have offer: "handleSignaling env data s = handleOffer env (m_from data) (m_offer data) s"
    if "m_from data \<noteq> username s" and "m_type data = ''webrtc-offer''"
    using that by (simp add: handleSignaling_def)
  have answer: "handleSignaling env data s = handleAnswer env (m_from data) (m_answer data) s"
    if "m_from data \<noteq> username s" and "m_type data = ''webrtc-answer''"
    using that by (simp add: handleSignaling_def)
  have ice: "handleSignaling env data s =
      handleIceCandidate env (m_from data) (m_candidate data) s"
    if "m_from data \<noteq> username s" and "m_type data = ''webrtc-ice-candidate''"
    using that by (simp add: handleSignaling_def)
  have c1: "fst (handleSignaling env data s) = Inr ()"
    by (rule handleSignaling_resolves)
  have c2: "fst (createPeerConnection env u s) = Inr ()"
    by (rule createPeerConnection_resolves)
  have c3: "\<forall>v. v \<noteq> m_from data \<longrightarrow>
      map_of (peers (fst (snd (handleSignaling env data s)))) v = map_of (peers s) v \<and>
      map_of (remoteStreams (fst (snd (handleSignaling env data s)))) v =
        map_of (remoteStreams s) v"
    using handleSignaling_others by blast
  have c4: "\<forall>v. v \<noteq> u \<longrightarrow>
      map_of (peers (fst (snd (createPeerConnection env u s)))) v = map_of (peers s) v \<and>
      map_of (remoteStreams (fst (snd (createPeerConnection env u s)))) v =
        map_of (remoteStreams s) v"
    using createPeerConnection_others by blast
  have c5: "m_from data \<noteq> username s \<and> m_type data = ''webrtc-offer'' \<and>
    (mgr_handleOffer env = Inl e \<or> mgr_createAnswer env = Inl e) \<longrightarrow>
      map_of (peers (fst (snd (handleSignaling env data s)))) (m_from data) = None \<and>
      map_of (remoteStreams (fst (snd (handleSignaling env data s)))) (m_from data) = None \<and>
      MgrClose (case map_of (peers s) (m_from data) of None \<Rightarrow> nextMgr s | Some m \<Rightarrow> m)
        \<in> set (snd (snd (handleSignaling env data s)))"
    using handleOffer_failure [of env e "m_from data" "m_offer data" s]
    by (simp add: offer)
  have c6: "m_from data \<noteq> username s \<and> m_type data = ''webrtc-answer'' \<and>
    map_of (peers s) (m_from data) = Some m \<and> mgr_handleAnswer env = Inl e \<longrightarrow>
      map_of (peers (fst (snd (handleSignaling env data s)))) (m_from data) = None \<and>
      map_of (remoteStreams (fst (snd (handleSignaling env data s)))) (m_from data) = None \<and>
      MgrClose m \<in> set (snd (snd (handleSignaling env data s)))"
    using handleAnswer_failure [of s "m_from data" m env e "m_answer data"]
    by (simp add: answer)
  have c7: "map_of (peers s) u = None \<and> mgr_createOffer env = Inl e \<longrightarrow>
      map_of (peers (fst (snd (createPeerConnection env u s)))) u = None \<and>
      map_of (remoteStreams (fst (snd (createPeerConnection env u s)))) u = None \<and>
      MgrClose (nextMgr s) \<in> set (snd (snd (createPeerConnection env u s)))"
    using createPeerConnection_failure [of s u env e] by blast
  have c8: "m_from data \<noteq> username s \<and> m_type data = ''webrtc-ice-candidate'' \<and>
    map_of (peers s) (m_from data) = Some m \<longrightarrow>
      handleSignaling env data s =
        (Inr (), s, [MgrAddIceCandidate m (m_candidate data)])"
    using handleIceCandidate_keeps_session [of s "m_from data" m env "m_candidate data"]
    by (simp add: ice)
  have e1: "m_from data \<noteq> username s \<and> m_type data = ''webrtc-offer'' \<and>
    map_of (peers s) (m_from data) = Some m \<longrightarrow>
      handleSignaling env data s =
        (case mgr_handleOffer env of
        Inl err \<Rightarrow>
          (Inr (),
           s\<lparr>peers := AList.delete (m_from data) (peers s),
              remoteStreams := AList.delete (m_from data) (remoteStreams s)\<rparr>,
           [MgrHandleOffer m (m_offer data), MgrClose m] @
           (case map_of (remoteStreams s) (m_from data) of
              None \<Rightarrow> []
            | Some st \<Rightarrow> [Emit (VoiceStreamRemoved (m_from data))]))
      | Inr ok \<Rightarrow>
          (case mgr_createAnswer env of
             Inl err \<Rightarrow>
               (Inr (),
                s\<lparr>peers := AList.delete (m_from data) (peers s),
                   remoteStreams := AList.delete (m_from data) (remoteStreams s)\<rparr>,
                [MgrHandleOffer m (m_offer data), MgrCreateAnswer m, MgrClose m] @
                (case map_of (remoteStreams s) (m_from data) of
              None \<Rightarrow> []
            | Some st \<Rightarrow> [Emit (VoiceStreamRemoved (m_from data))]))
           | Inr answer \<Rightarrow>
               (Inr (), s,
                [MgrHandleOffer m (m_offer data), MgrCreateAnswer m] @
                (if isConnected env
                 then [WsSend \<lparr>m_type = ''webrtc-answer'', m_username = Undefined,
                   m_roomname = roomname s, m_inVoice = False, m_muted = None,
                   m_from = username s, m_to = (m_from data), m_offer = None,
                   m_answer = Some answer, m_candidate = None\<rparr>]
                 else []))))"
    using handleSignaling_offer_existing_session [of s "m_from data" m data env] by blast
  have e2: "m_from data \<noteq> username s \<and> m_type data = ''webrtc-offer'' \<and>
    map_of (peers s) (m_from data) = None \<longrightarrow>
      handleSignaling env data s =
        (case mgr_handleOffer env of
        Inl err \<Rightarrow>
          (Inr (),
           s\<lparr>remoteStreams := AList.delete (m_from data) (remoteStreams s),
              nextMgr := Suc (nextMgr s)\<rparr>,
           NewManager (nextMgr s) #
           (case localStream s of
              None \<Rightarrow> []
            | Some st \<Rightarrow> [MgrAddLocalStream (nextMgr s) st]) @
           [MgrHandleOffer (nextMgr s) (m_offer data), MgrClose (nextMgr s)] @
           (case map_of (remoteStreams s) (m_from data) of
              None \<Rightarrow> []
            | Some st \<Rightarrow> [Emit (VoiceStreamRemoved (m_from data))]))
      | Inr ok \<Rightarrow>
          (case mgr_createAnswer env of
             Inl err \<Rightarrow>
               (Inr (),
                s\<lparr>remoteStreams := AList.delete (m_from data) (remoteStreams s),
                   nextMgr := Suc (nextMgr s)\<rparr>,
                NewManager (nextMgr s) #
                (case localStream s of
              None \<Rightarrow> []
            | Some st \<Rightarrow> [MgrAddLocalStream (nextMgr s) st]) @
                [MgrHandleOffer (nextMgr s) (m_offer data), MgrCreateAnswer (nextMgr s),
                 MgrClose (nextMgr s)] @
                (case map_of (remoteStreams s) (m_from data) of
              None \<Rightarrow> []
            | Some st \<Rightarrow> [Emit (VoiceStreamRemoved (m_from data))]))
           | Inr answer \<Rightarrow>
               (Inr (),
                s\<lparr>peers := peers s @ [((m_from data), nextMgr s)], nextMgr := Suc (nextMgr s)\<rparr>,
                NewManager (nextMgr s) #
                (case localStream s of
              None \<Rightarrow> []
            | Some st \<Rightarrow> [MgrAddLocalStream (nextMgr s) st]) @
                [MgrHandleOffer (nextMgr s) (m_offer data), MgrCreateAnswer (nextMgr s)] @
                (if isConnected env
                 then [WsSend \<lparr>m_type = ''webrtc-answer'', m_username = Undefined,
                   m_roomname = roomname s, m_inVoice = False, m_muted = None,
                   m_from = username s, m_to = (m_from data), m_offer = None,
                   m_answer = Some answer, m_candidate = None\<rparr>]
                 else []))))"
    using handleSignaling_offer_no_session [of s "m_from data" data env] by blast
  have e3: "m_from data \<noteq> username s \<and> m_type data = ''webrtc-answer'' \<and>
    map_of (peers s) (m_from data) = Some m \<longrightarrow>
      handleSignaling env data s =
        (case mgr_handleAnswer env of
        Inl err \<Rightarrow>
          (Inr (),
           s\<lparr>peers := AList.delete (m_from data) (peers s),
              remoteStreams := AList.delete (m_from data) (remoteStreams s)\<rparr>,
           [MgrHandleAnswer m (m_answer data), MgrClose m] @
           (case map_of (remoteStreams s) (m_from data) of
              None \<Rightarrow> []
            | Some st \<Rightarrow> [Emit (VoiceStreamRemoved (m_from data))]))
      | Inr ok \<Rightarrow> (Inr (), s, [MgrHandleAnswer m (m_answer data)]))"
    using handleSignaling_answer_existing_session [of s "m_from data" m data env] by blast
  have e4: "map_of (peers s) u = None \<longrightarrow>
      createPeerConnection env u s =
        (case mgr_createOffer env of
        Inl err \<Rightarrow>
          (Inr (),
           s\<lparr>remoteStreams := AList.delete u (remoteStreams s),
              nextMgr := Suc (nextMgr s)\<rparr>,
           NewManager (nextMgr s) #
           (case localStream s of
              None \<Rightarrow> []
            | Some st \<Rightarrow> [MgrAddLocalStream (nextMgr s) st]) @
           [MgrCreateOffer (nextMgr s), MgrClose (nextMgr s)] @
           (case map_of (remoteStreams s) u of
              None \<Rightarrow> []
            | Some st \<Rightarrow> [Emit (VoiceStreamRemoved u)]))
      | Inr offer \<Rightarrow>
          (Inr (),
           s\<lparr>peers := peers s @ [(u, nextMgr s)], nextMgr := Suc (nextMgr s)\<rparr>,
           NewManager (nextMgr s) #
           (case localStream s of
              None \<Rightarrow> []
            | Some st \<Rightarrow> [MgrAddLocalStream (nextMgr s) st]) @
           [MgrCreateOffer (nextMgr s)] @
           (if isConnected env
            then [WsSend \<lparr>m_type = ''webrtc-offer'', m_username = Undefined,
                   m_roomname = roomname s, m_inVoice = False, m_muted = None,
                   m_from = username s, m_to = u, m_offer = Some offer,
                   m_answer = None, m_candidate = None\<rparr>]
            else [])))"
    using createPeerConnection_no_session [of s u env] by blast
  show ?thesis
    using c1 c2 c3 c4 c5 c6 c7 c8 e1 e2 e3 e4 by (intro conjI)
qed

theorem per_peer_failures_contained_witness:
  "map_of (peers alice_hears_bob_with_carol) (Str ''bob'') = Some 0 \<and>
   map_of (peers alice_hears_bob_with_carol) (Str ''carol'') = Some (Suc 0) \<and>
   map_of (peers alice_hears_bob_with_carol) (Str ''dave'') = None \<and>
   map_of (remoteStreams alice_hears_bob_with_carol) (Str ''bob'') = Some 9 \<and>
   mgr_handleOffer env_rejecting = Inl (Error ''InvalidStateError'') \<and>
   mgr_handleAnswer env_rejecting = Inl (Error ''InvalidStateError'') \<and>
   mgr_createOffer env_rejecting = Inl (Error ''InvalidStateError'') \<and>
   mgr_addIceCandidate env_rejecting = Inl (Error ''OperationError'') \<and>
   handleSignaling env_rejecting (signalingMessage ''webrtc-offer'' ''bob'' ''alice'')
       alice_hears_bob_with_carol =
     (Inr (),
      alice_hears_bob_with_carol\<lparr>peers := [(Str ''carol'', Suc 0)], remoteStreams := []\<rparr>,
      [MgrHandleOffer 0 (Some ''offer-sdp''), MgrClose 0,
       Emit (VoiceStreamRemoved (Str ''bob''))]) \<and>
   handleSignaling env_rejecting (signalingMessage ''webrtc-answer'' ''bob'' ''alice'')
       alice_hears_bob_with_carol =
     (Inr (),
      alice_hears_bob_with_carol\<lparr>peers := [(Str ''carol'', Suc 0)], remoteStreams := []\<rparr>,
      [MgrHandleAnswer 0 (Some ''answer-sdp''), MgrClose 0,
       Emit (VoiceStreamRemoved (Str ''bob''))]) \<and>
   handleSignaling env_rejecting (signalingMessage ''webrtc-offer'' ''dave'' ''alice'')
       alice_hears_bob_with_carol =
     (Inr (), alice_hears_bob_with_carol\<lparr>nextMgr := Suc (Suc (Suc 0))\<rparr>,
      [NewManager (Suc (Suc 0)), MgrAddLocalStream (Suc (Suc 0)) 7,
       MgrHandleOffer (Suc (Suc 0)) (Some ''offer-sdp''), MgrClose (Suc (Suc 0))]) \<and>
   createPeerConnection env_rejecting (Str ''dave'') alice_hears_bob_with_carol =
     (Inr (), alice_hears_bob_with_carol\<lparr>nextMgr := Suc (Suc (Suc 0))\<rparr>,
      [NewManager (Suc (Suc 0)), MgrAddLocalStream (Suc (Suc 0)) 7,
       MgrCreateOffer (Suc (Suc 0)), MgrClose (Suc (Suc 0))]) \<and>
   handleSignaling env_rejecting (signalingMessage ''webrtc-ice-candidate'' ''bob'' ''alice'')
       alice_hears_bob_with_carol =
     (Inr (), alice_hears_bob_with_carol, [MgrAddIceCandidate 0 (Some ''candidate'')])"
proof -
  let ?S = "alice_hears_bob_with_carol"
  let ?O = "signalingMessage ''webrtc-offer'' ''bob'' ''alice''"
  let ?A = "signalingMessage ''webrtc-answer'' ''bob'' ''alice''"
  let ?I = "signalingMessage ''webrtc-ice-candidate'' ''bob'' ''alice''"
  let ?N = "signalingMessage ''webrtc-offer'' ''dave'' ''alice''"
  let ?e = "Error ''InvalidStateError''"
  note S = alice_hears_bob_with_carol_eq
  have p: "map_of (peers ?S) (Str ''bob'') = Some 0"
      "map_of (peers ?S) (Str ''carol'') = Some (Suc 0)"
      "map_of (peers ?S) (Str ''dave'') = None"
      "map_of (remoteStreams ?S) (Str ''bob'') = Some 9"
    by (simp_all add: S)
  have v: "mgr_handleOffer env_rejecting = Inl ?e" "mgr_handleAnswer env_rejecting = Inl ?e"
      "mgr_createOffer env_rejecting = Inl ?e"
      "mgr_addIceCandidate env_rejecting = Inl (Error ''OperationError'')"
    by (simp_all add: env_rejecting_def)
  have hO: "m_from ?O \<noteq> username ?S \<and> m_type ?O = ''webrtc-offer'' \<and>
      map_of (peers ?S) (m_from ?O) = Some 0"
    by (simp add: S signalingMessage_def emptyMessage_def)
  have hA: "m_from ?A \<noteq> username ?S \<and> m_type ?A = ''webrtc-answer'' \<and>
      map_of (peers ?S) (m_from ?A) = Some 0"
    by (simp add: S signalingMessage_def emptyMessage_def)
  have hN: "m_from ?N \<noteq> username ?S \<and> m_type ?N = ''webrtc-offer'' \<and>
      map_of (peers ?S) (m_from ?N) = None"
    by (simp add: S signalingMessage_def emptyMessage_def)
  have hI: "m_from ?I \<noteq> username ?S \<and> m_type ?I = ''webrtc-ice-candidate'' \<and>
      map_of (peers ?S) (m_from ?I) = Some 0"
    by (simp add: S signalingMessage_def emptyMessage_def)
  note tO = per_peer_failures_contained [of env_rejecting ?O ?S "Str ''dave''" ?e 0]
  note tA = per_peer_failures_contained [of env_rejecting ?A ?S "Str ''dave''" ?e 0]
  note tN = per_peer_failures_contained [of env_rejecting ?N ?S "Str ''dave''" ?e 0]
  note tI = per_peer_failures_contained [of env_rejecting ?I ?S "Str ''dave''" ?e 0]
  have a: "handleSignaling env_rejecting ?O ?S =
      (Inr (), ?S\<lparr>peers := [(Str ''carol'', Suc 0)], remoteStreams := []\<rparr>,
       [MgrHandleOffer 0 (Some ''offer-sdp''), MgrClose 0,
        Emit (VoiceStreamRemoved (Str ''bob''))])"
    using tO [THEN conjunct2, THEN conjunct2, THEN conjunct2, THEN conjunct2, THEN conjunct2, THEN conjunct2, THEN conjunct2, THEN conjunct2, THEN conjunct1, THEN mp, OF hO]
    by (simp add: v) (simp add: S signalingMessage_def)
  have b: "handleSignaling env_rejecting ?A ?S =
      (Inr (), ?S\<lparr>peers := [(Str ''carol'', Suc 0)], remoteStreams := []\<rparr>,
       [MgrHandleAnswer 0 (Some ''answer-sdp''), MgrClose 0,
        Emit (VoiceStreamRemoved (Str ''bob''))])"
    using tA [THEN conjunct2, THEN conjunct2, THEN conjunct2, THEN conjunct2, THEN conjunct2, THEN conjunct2, THEN conjunct2, THEN conjunct2, THEN conjunct2, THEN conjunct2, THEN conjunct1, THEN mp, OF hA]
    by (simp add: v) (simp add: S signalingMessage_def)
  have c: "handleSignaling env_rejecting ?N ?S =
      (Inr (), ?S\<lparr>nextMgr := Suc (Suc (Suc 0))\<rparr>,
       [NewManager (Suc (Suc 0)), MgrAddLocalStream (Suc (Suc 0)) 7,
        MgrHandleOffer (Suc (Suc 0)) (Some ''offer-sdp''), MgrClose (Suc (Suc 0))])"
    using tN [THEN conjunct2, THEN conjunct2, THEN conjunct2, THEN conjunct2, THEN conjunct2, THEN conjunct2, THEN conjunct2, THEN conjunct2, THEN conjunct2, THEN conjunct1, THEN mp, OF hN]
    by (simp add: v) (simp add: S signalingMessage_def)
  have d: "createPeerConnection env_rejecting (Str ''dave'') ?S =
      (Inr (), ?S\<lparr>nextMgr := Suc (Suc (Suc 0))\<rparr>,
       [NewManager (Suc (Suc 0)), MgrAddLocalStream (Suc (Suc 0)) 7,
        MgrCreateOffer (Suc (Suc 0)), MgrClose (Suc (Suc 0))])"
    using tO [THEN conjunct2, THEN conjunct2, THEN conjunct2, THEN conjunct2, THEN conjunct2, THEN conjunct2, THEN conjunct2, THEN conjunct2, THEN conjunct2, THEN conjunct2, THEN conjunct2, THEN mp, OF p(3)]
    by (simp add: v) (simp add: S)
  have e: "handleSignaling env_rejecting ?I ?S =
      (Inr (), ?S, [MgrAddIceCandidate 0 (Some ''candidate'')])"
    using tI [THEN conjunct2, THEN conjunct2, THEN conjunct2, THEN conjunct2, THEN conjunct2, THEN conjunct2, THEN conjunct2, THEN conjunct1, THEN mp, OF hI]
    by (simp add: signalingMessage_def)
  show ?thesis
    using p v a b c d e by blast
qed

text \<open>The claim as the specification states it (a failing ICE candidate triggers
  \<open>removePeer\<close>) does not hold: \<open>alice\<close> holds a session for \<open>bob\<close>, a candidate from \<open>bob\<close>
  is refused by the manager, and the session is still registered; nothing was closed.\<close>

theorem failing_ice_candidate_keeps_session:
  "mgr_addIceCandidate env_rejecting = Inl (Error ''OperationError'') \<and>
   map_of (peers alice_with_bob) (Str ''bob'') = Some 0 \<and>
   handleSignaling env_rejecting (signalingMessage ''webrtc-ice-candidate'' ''bob'' ''alice'')
     alice_with_bob =
     (Inr (), alice_with_bob, [MgrAddIceCandidate 0 (Some ''candidate'')])"
  by (simp add: env_rejecting_def alice_with_bob_eq signalingMessage_def emptyMessage_def
      handleSignaling_def handleIceCandidate_def)

subsection \<open>Who initiates\<close>

lemma handleVoiceState_initiates:
  assumes "inVoice s" and "m_inVoice data" and "m_username data \<noteq> username s"
    and "map_of (peers s) (m_username data) = None"
  shows "managers_created (snd (handleVoiceState env data s)) = [nextMgr s] \<and>
         offers_requested (snd (handleVoiceState env data s)) = [nextMgr s] \<and>
         (\<not> isl (mgr_createOffer env) \<longrightarrow>
            peers (fst (handleVoiceState env data s)) =
              AList.update (m_username data) (nextMgr s) (peers s))"
  using assms
  by (simp add: handleVoiceState_def createPeerConnection_start_def
      createPeerConnection_resume_def has_def newPeer_def removePeer_effects
      sendSignaling_def Let_def split_def managers_created_append offers_requested_append
      AList.update_conv' split: option.splits sum.splits)

lemma voiceStateMessage_fields:
  "m_username (voiceStateMessage s) = username s \<and>
   m_inVoice (voiceStateMessage s) = inVoice s \<and>
   m_roomname (voiceStateMessage s) = roomname s"
  by (simp add: voiceStateMessage_def)

text \<open>
  Claim C1, as the code has it. The code has no tie-break. Two participants with
  different usernames, both in voice and neither holding a session for the other, each
  process the voice state that the other broadcasts: each of them constructs exactly one
  manager for the other and asks it for an offer, whichever username is the smaller; and
  where the offer is produced, that manager is registered as the session of the other.
\<close>

theorem both_participants_initiate:
  assumes "inVoice sA" and "inVoice sB" and "username sA \<noteq> username sB"
    and "map_of (peers sA) (username sB) = None"
    and "map_of (peers sB) (username sA) = None"
  shows "managers_created (snd (handleVoiceState envA (voiceStateMessage sB) sA)) =
           [nextMgr sA] \<and>
         offers_requested (snd (handleVoiceState envA (voiceStateMessage sB) sA)) =
           [nextMgr sA] \<and>
         managers_created (snd (handleVoiceState envB (voiceStateMessage sA) sB)) =
           [nextMgr sB] \<and>
         offers_requested (snd (handleVoiceState envB (voiceStateMessage sA) sB)) =
           [nextMgr sB] \<and>
         (\<not> isl (mgr_createOffer envA) \<longrightarrow>
            peers (fst (handleVoiceState envA (voiceStateMessage sB) sA)) =
              AList.update (username sB) (nextMgr sA) (peers sA)) \<and>
         (\<not> isl (mgr_createOffer envB) \<longrightarrow>
            peers (fst (handleVoiceState envB (voiceStateMessage sA) sB)) =
              AList.update (username sA) (nextMgr sB) (peers sB))"
proof -
  have a: "m_inVoice (voiceStateMessage sB)" "m_username (voiceStateMessage sB) \<noteq> username sA"
      "map_of (peers sA) (m_username (voiceStateMessage sB)) = None"
    using assms by (simp_all add: voiceStateMessage_fields)
  have b: "m_inVoice (voiceStateMessage sA)" "m_username (voiceStateMessage sA) \<noteq> username sB"
      "map_of (peers sB) (m_username (voiceStateMessage sA)) = None"
    using assms by (simp_all add: voiceStateMessage_fields)
  show ?thesis
    using handleVoiceState_initiates [OF assms(1) a, of envA]
      handleVoiceState_initiates [OF assms(2) b, of envB]
    by (simp add: voiceStateMessage_fields)
qed

theorem both_participants_initiate_witness:
  "inVoice alice_joined \<and> inVoice bob_joined \<and> username alice_joined \<noteq> username bob_joined \<and>
   map_of (peers alice_joined) (username bob_joined) = None \<and>
   map_of (peers bob_joined) (username alice_joined) = None \<and>
   offers_requested (snd (handleVoiceState env_ok (voiceStateMessage bob_joined)
     alice_joined)) = [0] \<and>
   offers_requested (snd (handleVoiceState env_ok (voiceStateMessage alice_joined)
     bob_joined)) = [0] \<and>
   peers (fst (handleVoiceState env_ok (voiceStateMessage bob_joined) alice_joined)) =
     [(Str ''bob'', 0)] \<and>
   peers (fst (handleVoiceState env_ok (voiceStateMessage alice_joined) bob_joined)) =
     [(Str ''alice'', 0)]"
proof -
  have h1: "inVoice alice_joined" and h2: "inVoice bob_joined"
    and h3: "username alice_joined \<noteq> username bob_joined"
    and h4: "map_of (peers alice_joined) (username bob_joined) = None"
    and h5: "map_of (peers bob_joined) (username alice_joined) = None"
    by (simp_all add: alice_joined_eq bob_joined_eq)
  have ok: "\<not> isl (mgr_createOffer env_ok)"
    by (simp add: env_ok_def)
  have n: "nextMgr alice_joined = 0" "nextMgr bob_joined = 0"
      "AList.update (username bob_joined) 0 (peers alice_joined) = [(Str ''bob'', 0)]"
      "AList.update (username alice_joined) 0 (peers bob_joined) = [(Str ''alice'', 0)]"
    by (simp_all add: alice_joined_eq bob_joined_eq)
  note t = both_participants_initiate [OF h1 h2 h3 h4 h5, of env_ok env_ok, unfolded n]
  show ?thesis
    using h1 h2 h3 h4 h5 ok t by blast
qed

text \<open>The claim as the specification states it (only the participant with the smaller
  username creates an offer) does not hold: \<open>bob\<close>, whose username is the larger one,
  receives the voice state of \<open>alice\<close> in the same room, registers a session for her and
  asks it for an offer, which he sends.\<close>

theorem larger_username_creates_offer:
  "''alice'' < ''bob'' \<and>
   username bob_joined = Str ''bob'' \<and> inVoice bob_joined \<and>
   m_username (voiceStateMessage alice_joined) = Str ''alice'' \<and>
   m_inVoice (voiceStateMessage alice_joined) \<and>
   m_roomname (voiceStateMessage alice_joined) = roomname bob_joined \<and>
   handleVoiceState env_ok (voiceStateMessage alice_joined) bob_joined =
     (bob_joined\<lparr>peers := [(Str ''alice'', 0)], nextMgr := Suc 0\<rparr>,
      [Emit (VoiceJoined (Str ''alice'') False), NewManager 0, MgrAddLocalStream 0 7,
       MgrCreateOffer 0, Emit (VoiceMuted (Str ''alice'') False),
       WsSend (emptyMessage\<lparr>m_type := ''webrtc-offer'', m_to := Str ''alice'',
         m_offer := Some ''offer-sdp'', m_from := Str ''bob'',
         m_roomname := Str ''lobby''\<rparr>)])"
  by (simp add: alice_joined_eq bob_joined_eq voiceStateMessage_def emptyMessage_def
      handleVoiceState_def createPeerConnection_start_def createPeerConnection_resume_def
      has_def newPeer_def sendSignaling_def env_ok_def Let_def)

end
